theory Spec2Isabelle
  imports Main "HOL-Library.Log_Nat"
begin

section \<open>The values the dashboard works on\<close>

text \<open>
  \<^verbatim>\<open>site/app.js\<close> receives three JSON snapshots and reads them with the operators of
  JavaScript: property access, \<^verbatim>\<open>??\<close>, \<^verbatim>\<open>Number(...)\<close>, \<^verbatim>\<open>isFinite(...)\<close>, template
  literals, \<^verbatim>\<open>===\<close> and \<^verbatim>\<open>>\<close>. This section fixes what those operators do on the values
  \<^verbatim>\<open>JSON.parse\<close> can return; the sections after it follow the functions of the file.

  A number is a binary64 value: a finite one is kept as the rational it denotes, beside the
  two infinities and NaN (\<^verbatim>\<open>JSON.parse("1e999")\<close> is \<^verbatim>\<open>Infinity\<close>). The sign of zero is not
  kept: the program never divides by a zero it computed, and the one place that prints a zero
  with its sign is \<^verbatim>\<open>fmtInt\<close>, which has a case of its own for the \<^verbatim>\<open>-0\<close> that
  \<^verbatim>\<open>Math.round\<close> makes there.
  A string is the list of the bytes of its UTF-8 encoding: one byte below 128 for an ASCII
  character, two to four bytes from 128 on for any other (\<^verbatim>\<open>U+00A0\<close> is the two bytes
  \<^verbatim>\<open>C2 A0\<close>); text with an unpaired surrogate has no such encoding and is not covered.
  \<^verbatim>\<open>undefined\<close> is \<open>None\<close> of an optional value.
\<close>

datatype error = TypeError | RangeError

datatype jsnum = Fin rat | PInf | NInf | NaN

datatype json =
    JNull
  | JBool bool
  | JNum jsnum
  | JStr string
  | JArr "json list"
  | JObj "(string \<times> json) list"

subsection \<open>Binary64 arithmetic\<close>

definition pow2 :: "int \<Rightarrow> rat" where
  "pow2 e = (if 0 \<le> e then 2 ^ nat e else 1 / 2 ^ nat (- e))"

text \<open>The exponent of a positive rational: \<open>pow2 (ilog2 a) \<le> a < pow2 (ilog2 a + 1)\<close>.\<close>

definition ilog2 :: "rat \<Rightarrow> int" where
  "ilog2 a =
     (let (p, d) = quotient_of a;
          e0 = int (floorlog 2 (nat p)) - int (floorlog 2 (nat d))
      in if pow2 e0 \<le> a then e0 else e0 - 1)"

definition round_half_even :: "rat \<Rightarrow> int" where
  "round_half_even m =
     (let f = \<lfloor>m\<rfloor>; d = m - of_int f
      in if d < 1 / 2 then f else if 1 / 2 < d then f + 1 else if even f then f else f + 1)"

text \<open>
  The nearest binary64 value below the overflow threshold: 53 significant bits for a normal
  number, multiples of \<open>2 ^ -1074\<close> below \<open>2 ^ -1022\<close>, ties to the even significand.
\<close>

definition nearest64 :: "rat \<Rightarrow> rat" where
  "nearest64 q =
     (if q = 0 then 0
      else let a = \<bar>q\<bar>;
               u = pow2 (max (ilog2 a) (- 1022) - 52);
               r = of_int (round_half_even (a / u)) * u
           in if 0 < q then r else - r)"

text \<open>A magnitude of \<open>2 ^ 1024 - 2 ^ 970\<close> or more rounds to an infinity.\<close>

definition max_bound :: rat where
  "max_bound = 2 ^ 1024 - 2 ^ 970"

definition round64 :: "rat \<Rightarrow> jsnum" where
  "round64 q =
     (if max_bound \<le> \<bar>q\<bar> then (if 0 < q then PInf else NInf) else Fin (nearest64 q))"

definition js_isFinite :: "jsnum \<Rightarrow> bool" where
  "js_isFinite n = (case n of Fin _ \<Rightarrow> True | _ \<Rightarrow> False)"

definition positive :: "jsnum \<Rightarrow> bool" where
  "positive n = (case n of Fin a \<Rightarrow> 0 \<le> a | PInf \<Rightarrow> True | _ \<Rightarrow> False)"

definition jneg :: "jsnum \<Rightarrow> jsnum" where
  "jneg n = (case n of Fin a \<Rightarrow> Fin (- a) | PInf \<Rightarrow> NInf | NInf \<Rightarrow> PInf | NaN \<Rightarrow> NaN)"

definition jadd :: "jsnum \<Rightarrow> jsnum \<Rightarrow> jsnum" where
  "jadd x y =
     (case (x, y) of
        (Fin a, Fin b) \<Rightarrow> round64 (a + b)
      | (NaN, _) \<Rightarrow> NaN
      | (_, NaN) \<Rightarrow> NaN
      | (PInf, NInf) \<Rightarrow> NaN
      | (NInf, PInf) \<Rightarrow> NaN
      | (PInf, _) \<Rightarrow> PInf
      | (NInf, _) \<Rightarrow> NInf
      | (_, PInf) \<Rightarrow> PInf
      | (_, NInf) \<Rightarrow> NInf)"

definition jsub :: "jsnum \<Rightarrow> jsnum \<Rightarrow> jsnum" where
  "jsub x y = jadd x (jneg y)"

definition jmul :: "jsnum \<Rightarrow> jsnum \<Rightarrow> jsnum" where
  "jmul x y =
     (case (x, y) of
        (Fin a, Fin b) \<Rightarrow> round64 (a * b)
      | (NaN, _) \<Rightarrow> NaN
      | (_, NaN) \<Rightarrow> NaN
      | _ \<Rightarrow> if x = Fin 0 \<or> y = Fin 0 then NaN
             else if positive x = positive y then PInf else NInf)"

definition jdiv :: "jsnum \<Rightarrow> jsnum \<Rightarrow> jsnum" where
  "jdiv x y =
     (case (x, y) of
        (Fin a, Fin b) \<Rightarrow>
          if b = 0 then (if a = 0 then NaN else if 0 < a then PInf else NInf)
          else round64 (a / b)
      | (NaN, _) \<Rightarrow> NaN
      | (_, NaN) \<Rightarrow> NaN
      | (Fin a, _) \<Rightarrow> Fin 0
      | (_, Fin b) \<Rightarrow> if positive x = positive y then PInf else NInf
      | _ \<Rightarrow> NaN)"

subsection \<open>Strings\<close>

text \<open>
  What the host does is not part of the repository and is a parameter of the model: the
  digits of a number that is not a small integer, \<^verbatim>\<open>toFixed\<close>, \<^verbatim>\<open>toLocaleString\<close> (of a
  number other than \<^verbatim>\<open>-0\<close>, and \<open>minus_zero\<close> for \<^verbatim>\<open>(-0).toLocaleString()\<close>),
  \<^verbatim>\<open>localeCompare\<close>, the upper-casing of text that is not all ASCII, which follows the
  Unicode tables of the host, and the number of arguments the host accepts in a call with a
  spread array (\<^verbatim>\<open>Math.min(...series)\<close> throws a RangeError beyond it).
\<close>

record runtime =
  shortest_digits :: "rat \<Rightarrow> string"
  toFixed :: "rat \<Rightarrow> nat \<Rightarrow> string"
  toLocaleString :: "rat \<Rightarrow> string"
  minus_zero :: string
  localeCompare :: "string \<Rightarrow> string \<Rightarrow> int"
  unicode_upper :: "string \<Rightarrow> string"
  max_arguments :: nat

definition digit_char :: "nat \<Rightarrow> char" where
  "digit_char d = ''0123456789'' ! d"

fun digits_of :: "nat \<Rightarrow> string" where
  "digits_of n = (if n < 10 then [digit_char n] else digits_of (n div 10) @ [digit_char (n mod 10)])"

declare digits_of.simps [simp del]

text \<open>
  \<^verbatim>\<open>Number::toString\<close>: an integer below \<open>2 ^ 53\<close> in magnitude prints as its decimal
  digits; the digits of every other finite value are the host's.
\<close>

definition number_to_string :: "runtime \<Rightarrow> jsnum \<Rightarrow> string" where
  "number_to_string rt n =
     (case n of
        NaN \<Rightarrow> ''NaN''
      | PInf \<Rightarrow> ''Infinity''
      | NInf \<Rightarrow> ''-Infinity''
      | Fin q \<Rightarrow>
          if q = of_int \<lfloor>q\<rfloor> \<and> \<bar>q\<bar> < 2 ^ 53
          then (if q < 0 then ''-'' else []) @ digits_of (nat \<bar>\<lfloor>q\<rfloor>\<bar>)
          else shortest_digits rt q)"

definition has_key :: "string \<Rightarrow> (string \<times> json) list \<Rightarrow> bool" where
  "has_key k kvs = (map_of kvs k \<noteq> None)"

text \<open>
  \<^verbatim>\<open>ToString\<close>, as a template literal and \<^verbatim>\<open>String(...)\<close> apply it. An array is joined
  with commas, \<^verbatim>\<open>null\<close> elements printing as nothing. An object parsed from JSON has no
  callable property of its own: it prints as \<^verbatim>\<open>[object Object]\<close> through the inherited
  \<^verbatim>\<open>toString\<close>, and when it has an own property named \<^verbatim>\<open>toString\<close>, which shadows the
  inherited one and cannot be called, the conversion throws a TypeError.
\<close>

fun ToString :: "runtime \<Rightarrow> json \<Rightarrow> error + string"
  and join_elements :: "runtime \<Rightarrow> json list \<Rightarrow> error + string"
where
  "ToString rt JNull = Inr ''null''"
| "ToString rt (JBool b) = Inr (if b then ''true'' else ''false'')"
| "ToString rt (JNum n) = Inr (number_to_string rt n)"
| "ToString rt (JStr s) = Inr s"
| "ToString rt (JArr xs) = join_elements rt xs"
| "ToString rt (JObj kvs) =
     (if has_key ''toString'' kvs then Inl TypeError else Inr ''[object Object]'')"
| "join_elements rt [] = Inr []"
| "join_elements rt (x # xs) =
     (case (if x = JNull then Inr [] else ToString rt x) of
        Inl e \<Rightarrow> Inl e
      | Inr s \<Rightarrow>
          if xs = [] then Inr s
          else (case join_elements rt xs of Inl e \<Rightarrow> Inl e | Inr t \<Rightarrow> Inr (s @ '','' @ t)))"

text \<open>\<^verbatim>\<open>ToString\<close> of a value that may be \<^verbatim>\<open>undefined\<close>.\<close>

definition ToString_opt :: "runtime \<Rightarrow> json option \<Rightarrow> error + string" where
  "ToString_opt rt v = (case v of None \<Rightarrow> Inr ''undefined'' | Some j \<Rightarrow> ToString rt j)"

text \<open>The six ASCII characters among the white space and line terminators of JavaScript.\<close>

definition is_space :: "char \<Rightarrow> bool" where
  "is_space c = (c \<in> {CHR 0x09, CHR 0x0A, CHR 0x0B, CHR 0x0C, CHR 0x0D, CHR '' ''})"

text \<open>
  All the white space and line terminators, each as its UTF-8 bytes: the six ASCII ones,
  \<^verbatim>\<open>U+00A0\<close>, \<^verbatim>\<open>U+1680\<close>, \<^verbatim>\<open>U+2000\<close> to \<^verbatim>\<open>U+200A\<close>, \<^verbatim>\<open>U+2028\<close>, \<^verbatim>\<open>U+2029\<close>,
  \<^verbatim>\<open>U+202F\<close>, \<^verbatim>\<open>U+205F\<close>, \<^verbatim>\<open>U+3000\<close> and \<^verbatim>\<open>U+FEFF\<close>.
\<close>

definition white_space :: "string list" where
  "white_space =
     [[CHR 0x09], [CHR 0x0A], [CHR 0x0B], [CHR 0x0C], [CHR 0x0D], [CHR 0x20],
      [CHR 0xC2, CHR 0xA0], [CHR 0xE1, CHR 0x9A, CHR 0x80],
      [CHR 0xE2, CHR 0x80, CHR 0x80], [CHR 0xE2, CHR 0x80, CHR 0x81],
      [CHR 0xE2, CHR 0x80, CHR 0x82], [CHR 0xE2, CHR 0x80, CHR 0x83],
      [CHR 0xE2, CHR 0x80, CHR 0x84], [CHR 0xE2, CHR 0x80, CHR 0x85],
      [CHR 0xE2, CHR 0x80, CHR 0x86], [CHR 0xE2, CHR 0x80, CHR 0x87],
      [CHR 0xE2, CHR 0x80, CHR 0x88], [CHR 0xE2, CHR 0x80, CHR 0x89],
      [CHR 0xE2, CHR 0x80, CHR 0x8A], [CHR 0xE2, CHR 0x80, CHR 0xA8],
      [CHR 0xE2, CHR 0x80, CHR 0xA9], [CHR 0xE2, CHR 0x80, CHR 0xAF],
      [CHR 0xE2, CHR 0x81, CHR 0x9F], [CHR 0xE3, CHR 0x80, CHR 0x80],
      [CHR 0xEF, CHR 0xBB, CHR 0xBF]]"

text \<open>The text after every leading occurrence of a member of \<open>ws\<close>.\<close>

function strip :: "string list \<Rightarrow> string \<Rightarrow> string" where
  "strip ws s =
     (case find (\<lambda>w. w \<noteq> [] \<and> take (length w) s = w) ws of
        None \<Rightarrow> s
      | Some w \<Rightarrow> strip ws (drop (length w) s))"
  by pat_completeness auto

termination
proof (relation "measure (\<lambda>(ws, s). length s)")
  fix ws :: "string list" and s w :: string
  assume "find (\<lambda>w. w \<noteq> [] \<and> take (length w) s = w) ws = Some w"
  then have "w \<noteq> []" "take (length w) s = w" by (auto simp: find_Some_iff)
  then have "s \<noteq> []" by auto
  then show "((ws, drop (length w) s), (ws, s)) \<in> measure (\<lambda>(ws, s). length s)"
    using \<open>w \<noteq> []\<close> by simp
qed simp

declare strip.simps [simp del]

text \<open>
  \<^verbatim>\<open>s.trim()\<close>: the leading and the trailing white space go. At the end of the text the
  bytes of a character are looked for in reverse.
\<close>

definition trim :: "string \<Rightarrow> string" where
  "trim s = rev (strip (map rev white_space) (rev (strip white_space s)))"

definition code_unit :: "char \<Rightarrow> nat" where
  "code_unit c = of_char c"

definition upper_char :: "char \<Rightarrow> char" where
  "upper_char c =
     (case map_of (zip ''abcdefghijklmnopqrstuvwxyz'' ''ABCDEFGHIJKLMNOPQRSTUVWXYZ'') c of
        Some u \<Rightarrow> u
      | None \<Rightarrow> c)"

text \<open>
  \<^verbatim>\<open>s.toUpperCase()\<close>: in text that is all ASCII the letters \<^verbatim>\<open>a\<close> to \<^verbatim>\<open>z\<close> change; any
  other text is upper-cased by the host.
\<close>

definition ascii :: "string \<Rightarrow> bool" where
  "ascii s = list_all (\<lambda>c. code_unit c < 128) s"

definition toUpperCase :: "runtime \<Rightarrow> string \<Rightarrow> string" where
  "toUpperCase rt s = (if ascii s then map upper_char s else unicode_upper rt s)"

text \<open>\<^verbatim>\<open>hay.includes(q)\<close>: \<open>q\<close> occurs in \<open>hay\<close> as a contiguous substring.\<close>

fun includes_str :: "string \<Rightarrow> string \<Rightarrow> bool" where
  "includes_str [] q = (q = [])"
| "includes_str (c # cs) q = (take (length q) (c # cs) = q \<or> includes_str cs q)"

subsection \<open>\<^verbatim>\<open>Number(...)\<close>\<close>

definition is_digit :: "char \<Rightarrow> bool" where
  "is_digit c = (48 \<le> code_unit c \<and> code_unit c \<le> 57)"

definition digit_val :: "char \<Rightarrow> nat" where
  "digit_val c =
     (if is_digit c then code_unit c - 48
      else if 97 \<le> code_unit c \<and> code_unit c \<le> 102 then code_unit c - 87
      else if 65 \<le> code_unit c \<and> code_unit c \<le> 70 then code_unit c - 55
      else 16)"

definition digits_val :: "nat \<Rightarrow> string \<Rightarrow> nat" where
  "digits_val base s = foldl (\<lambda>acc c. acc * base + digit_val c) 0 s"

text \<open>\<^verbatim>\<open>0x1F\<close>, \<^verbatim>\<open>0o17\<close>, \<^verbatim>\<open>0b101\<close>: a radix prefix and at least one digit of the radix.\<close>

definition radix_literal :: "string \<Rightarrow> nat option" where
  "radix_literal s =
     (case s of
        z # p # ds \<Rightarrow>
          (let base = (if p = CHR ''x'' \<or> p = CHR ''X'' then 16
                       else if p = CHR ''o'' \<or> p = CHR ''O'' then 8
                       else if p = CHR ''b'' \<or> p = CHR ''B'' then 2 else (0::nat))
           in if z = CHR ''0'' \<and> base \<noteq> 0 \<and> ds \<noteq> [] \<and> list_all (\<lambda>c. digit_val c < base) ds
              then Some (digits_val base ds) else None)
      | _ \<Rightarrow> None)"

text \<open>The exponent part of a decimal literal: nothing, or \<^verbatim>\<open>e\<close> and a signed integer.\<close>

definition exponent_part :: "string \<Rightarrow> int option" where
  "exponent_part s =
     (case s of
        [] \<Rightarrow> Some 0
      | c # r \<Rightarrow>
          if c = CHR ''e'' \<or> c = CHR ''E'' then
            (let neg = (r \<noteq> [] \<and> hd r = CHR ''-'');
                 ds = (if r \<noteq> [] \<and> (hd r = CHR ''-'' \<or> hd r = CHR ''+'') then tl r else r)
             in if ds \<noteq> [] \<and> list_all is_digit ds
                then Some (if neg then - int (digits_val 10 ds) else int (digits_val 10 ds))
                else None)
          else None)"

text \<open>
  An unsigned decimal literal: \<^verbatim>\<open>Infinity\<close>, or digits with an optional fraction and
  exponent, at least one digit before or after the point. \<open>None\<close> when the text is none.
\<close>

definition unsigned_literal :: "string \<Rightarrow> jsnum option" where
  "unsigned_literal s =
     (if s = ''Infinity'' then Some PInf
      else let ip = takeWhile is_digit s;
               r1 = dropWhile is_digit s;
               dot = (r1 \<noteq> [] \<and> hd r1 = CHR ''.'');
               fp = (if dot then takeWhile is_digit (tl r1) else []);
               r2 = (if dot then dropWhile is_digit (tl r1) else r1)
           in if ip = [] \<and> fp = [] then None
              else (case exponent_part r2 of
                      None \<Rightarrow> None
                    | Some e \<Rightarrow>
                        Some (round64 (of_nat (digits_val 10 (ip @ fp))
                                         * (if 0 \<le> e - int (length fp)
                                            then 10 ^ nat (e - int (length fp))
                                            else 1 / 10 ^ nat (int (length fp) - e))))))"

text \<open>
  \<^verbatim>\<open>StringToNumber\<close>: white space around the text is dropped; blank text is 0, text
  that is no numeric literal is NaN.
\<close>

definition StringToNumber :: "string \<Rightarrow> jsnum" where
  "StringToNumber s =
     (let t = trim s
      in if t = [] then Fin 0
         else (case radix_literal t of
                 Some n \<Rightarrow> round64 (of_nat n)
               | None \<Rightarrow>
                   (case (if hd t = CHR ''-'' then map_option jneg (unsigned_literal (tl t))
                          else if hd t = CHR ''+'' then unsigned_literal (tl t)
                          else unsigned_literal t) of
                      None \<Rightarrow> NaN
                    | Some n \<Rightarrow> n)))"

text \<open>
  \<^verbatim>\<open>ToNumber\<close>, which \<^verbatim>\<open>Number(...)\<close> and the global \<^verbatim>\<open>isFinite(...)\<close> apply:
  \<^verbatim>\<open>undefined\<close> is NaN, \<^verbatim>\<open>null\<close> and \<^verbatim>\<open>false\<close> are 0, \<^verbatim>\<open>true\<close> is 1, a string is
  parsed, an array or object is first printed.
\<close>

definition Number :: "runtime \<Rightarrow> json option \<Rightarrow> error + jsnum" where
  "Number rt v =
     (case v of
        None \<Rightarrow> Inr NaN
      | Some JNull \<Rightarrow> Inr (Fin 0)
      | Some (JBool b) \<Rightarrow> Inr (Fin (if b then 1 else 0))
      | Some (JNum n) \<Rightarrow> Inr n
      | Some (JStr s) \<Rightarrow> Inr (StringToNumber s)
      | Some j \<Rightarrow> (case ToString rt j of Inl e \<Rightarrow> Inl e | Inr s \<Rightarrow> Inr (StringToNumber s)))"

text \<open>The truth of a value in a condition (\<^verbatim>\<open>ToBoolean\<close>).\<close>

definition truthy :: "json option \<Rightarrow> bool" where
  "truthy v =
     (case v of
        None \<Rightarrow> False
      | Some JNull \<Rightarrow> False
      | Some (JBool b) \<Rightarrow> b
      | Some (JNum n) \<Rightarrow> n \<noteq> NaN \<and> n \<noteq> Fin 0
      | Some (JStr s) \<Rightarrow> s \<noteq> []
      | Some _ \<Rightarrow> True)"

text \<open>
  \<^verbatim>\<open>a ?? b ?? ...\<close>: the first operand that is neither \<^verbatim>\<open>null\<close> nor \<^verbatim>\<open>undefined\<close>,
  and the last operand when there is none.
\<close>

definition nullish :: "json option \<Rightarrow> bool" where
  "nullish v = (v = None \<or> v = Some JNull)"

fun coalesce :: "json option list \<Rightarrow> json option" where
  "coalesce [] = None"
| "coalesce [v] = v"
| "coalesce (v # w # vs) = (if nullish v then coalesce (w # vs) else v)"

text \<open>
  \<^verbatim>\<open>r.key\<close> on a value that is not \<^verbatim>\<open>null\<close>: the own property of an object (an object is
  the list of its properties, every key once, as \<^verbatim>\<open>JSON.parse\<close> leaves it), and
  \<^verbatim>\<open>undefined\<close> on a string, number, boolean or array, none of whose inherited properties
  has a name the program reads.
\<close>

definition prop_of :: "json \<Rightarrow> string \<Rightarrow> json option" where
  "prop_of r k = (case r of JObj kvs \<Rightarrow> map_of kvs k | _ \<Rightarrow> None)"

definition isArray :: "json option \<Rightarrow> bool" where
  "isArray v = (case v of Some (JArr _) \<Rightarrow> True | _ \<Rightarrow> False)"

text \<open>
  A value prints without a TypeError when no object in it has an own property named
  \<^verbatim>\<open>toString\<close>.
\<close>

fun printable :: "json \<Rightarrow> bool" where
  "printable (JArr xs) = list_all printable xs"
| "printable (JObj kvs) = (\<not> has_key ''toString'' kvs \<and> list_all (\<lambda>kv. printable (snd kv)) kvs)"
| "printable _ = True"

section \<open>Normalisation of the snapshots\<close>

text \<open>\<^verbatim>\<open>asArray(obj)\<close>: the rows of a snapshot, bare or under \<^verbatim>\<open>data\<close>, \<^verbatim>\<open>rows\<close> or \<^verbatim>\<open>items\<close>.\<close>

definition array_items :: "json option \<Rightarrow> json list" where
  "array_items v = (case v of Some (JArr xs) \<Rightarrow> xs | _ \<Rightarrow> [])"

definition asArray :: "json \<Rightarrow> json list" where
  "asArray obj =
     (if isArray (Some obj) then array_items (Some obj)
      else if truthy (Some obj) \<and> isArray (prop_of obj ''data'') then array_items (prop_of obj ''data'')
      else if truthy (Some obj) \<and> isArray (prop_of obj ''rows'') then array_items (prop_of obj ''rows'')
      else if truthy (Some obj) \<and> isArray (prop_of obj ''items'') then array_items (prop_of obj ''items'')
      else [])"

text \<open>
  A normalised price row. \<open>None\<close> in a numeric field is \<^verbatim>\<open>null\<close>; \<open>ticker\<close> is whatever
  the record carried, \<^verbatim>\<open>undefined\<close> included. The field \<^verbatim>\<open>last\<close> of the source is
  \<open>last_price\<close> here.
\<close>

record price_row =
  ticker :: "json option"
  company :: json
  sector :: json
  last_price :: "rat option"
  prev :: "rat option"
  chg :: "rat option"
  pctChg :: "rat option"
  volume :: "rat option"
  timestamp :: json
  regime :: json
  macro_headline :: json
  series :: "json list option"
  raw :: json

text \<open>\<^verbatim>\<open>a ?? b ?? ... ?? d\<close> with a last operand \<open>d\<close> that is a value.\<close>

fun first_defined :: "json option list \<Rightarrow> json \<Rightarrow> json" where
  "first_defined [] d = d"
| "first_defined (v # vs) d =
     (case v of Some j \<Rightarrow> if j = JNull then first_defined vs d else j | None \<Rightarrow> first_defined vs d)"

text \<open>\<^verbatim>\<open>isFinite(x) ? x : null\<close> on a number.\<close>

definition finite_or_null :: "jsnum \<Rightarrow> rat option" where
  "finite_or_null n = (case n of Fin q \<Rightarrow> Some q | _ \<Rightarrow> None)"

text \<open>\<^verbatim>\<open>isFinite(v) ? Number(v) : null\<close> on a raw field: \<open>None\<close> is \<^verbatim>\<open>null\<close>.\<close>

definition raw_number :: "runtime \<Rightarrow> json option \<Rightarrow> error + jsnum option" where
  "raw_number rt v =
     (case Number rt v of
        Inl e \<Rightarrow> Inl e
      | Inr n \<Rightarrow> Inr (if js_isFinite n then Some n else None))"

text \<open>The local \<^verbatim>\<open>chg\<close> of \<^verbatim>\<open>normalizePriceRow\<close>, before the row keeps it.\<close>

definition chg_of :: "runtime \<Rightarrow> json \<Rightarrow> jsnum \<Rightarrow> jsnum \<Rightarrow> error + jsnum option" where
  "chg_of rt r lastn prevn =
     (if js_isFinite lastn \<and> js_isFinite prevn then Inr (Some (jsub lastn prevn))
      else raw_number rt (prop_of r ''change''))"

text \<open>The local \<^verbatim>\<open>pctChg\<close>.\<close>

definition pctChg_of :: "runtime \<Rightarrow> json \<Rightarrow> jsnum option \<Rightarrow> jsnum \<Rightarrow> error + jsnum option" where
  "pctChg_of rt r c prevn =
     (case c of
        Some cn \<Rightarrow>
          if js_isFinite prevn \<and> prevn \<noteq> Fin 0 then Inr (Some (jmul (jdiv cn prevn) (Fin 100)))
          else raw_number rt (prop_of r ''pct_change'')
      | None \<Rightarrow> raw_number rt (prop_of r ''pct_change''))"

text \<open>\<^verbatim>\<open>(x !== null && isFinite(x)) ? x : null\<close>.\<close>

definition keep_finite :: "jsnum option \<Rightarrow> rat option" where
  "keep_finite c = (case c of Some n \<Rightarrow> finite_or_null n | None \<Rightarrow> None)"

definition last_raw :: "json \<Rightarrow> json option" where
  "last_raw r = coalesce [prop_of r ''close'', prop_of r ''last'', prop_of r ''price'',
                          prop_of r ''Close'', prop_of r ''Last'']"

definition prev_raw :: "json \<Rightarrow> json option" where
  "prev_raw r = coalesce [prop_of r ''prev_close'', prop_of r ''previous_close'',
                          prop_of r ''prev'', prop_of r ''PrevClose'']"

definition volume_raw :: "json \<Rightarrow> json option" where
  "volume_raw r = coalesce [prop_of r ''volume'', prop_of r ''vol'', prop_of r ''Volume'']"

text \<open>
  \<^verbatim>\<open>normalizePriceRow(r)\<close>. Reading a property of \<^verbatim>\<open>null\<close> throws; so does \<^verbatim>\<open>Number\<close>
  or \<^verbatim>\<open>isFinite\<close> on a value that cannot be printed.
\<close>

definition normalizePriceRow :: "runtime \<Rightarrow> json \<Rightarrow> error + price_row" where
  "normalizePriceRow rt r =
     (if r = JNull then Inl TypeError
      else
        case Number rt (last_raw r) of Inl e \<Rightarrow> Inl e | Inr lastn \<Rightarrow>
        case Number rt (prev_raw r) of Inl e \<Rightarrow> Inl e | Inr prevn \<Rightarrow>
        case Number rt (volume_raw r) of Inl e \<Rightarrow> Inl e | Inr vol \<Rightarrow>
        case chg_of rt r lastn prevn of Inl e \<Rightarrow> Inl e | Inr c \<Rightarrow>
        case pctChg_of rt r c prevn of Inl e \<Rightarrow> Inl e | Inr p \<Rightarrow>
        Inr \<lparr> ticker = coalesce [prop_of r ''ticker'', prop_of r ''symbol'', prop_of r ''sym'',
                                   prop_of r ''Ticker'', prop_of r ''Symbol''],
              company = first_defined [prop_of r ''company_name'', prop_of r ''company'',
                                       prop_of r ''name''] (JStr []),
              sector = first_defined [prop_of r ''sector'', prop_of r ''Sector''] (JStr []),
              last_price = finite_or_null lastn,
              prev = finite_or_null prevn,
              chg = keep_finite c,
              pctChg = keep_finite p,
              volume = finite_or_null vol,
              timestamp = first_defined [prop_of r ''timestamp'', prop_of r ''time'',
                                         prop_of r ''bar_time'', prop_of r ''date''] (JStr []),
              regime = first_defined [prop_of r ''regime''] (JStr []),
              macro_headline = first_defined [prop_of r ''macro_headline''] (JStr []),
              series = (if isArray (prop_of r ''series'') then Some (array_items (prop_of r ''series''))
                        else if isArray (prop_of r ''history'')
                        then Some (array_items (prop_of r ''history'')) else None),
              raw = r \<rparr>)"

section \<open>The sparkline\<close>

text \<open>\<^verbatim>\<open>priceRow.series.map(Number)\<close>: the first entry that cannot be coerced throws.\<close>

fun map_Number :: "runtime \<Rightarrow> json list \<Rightarrow> error + jsnum list" where
  "map_Number rt [] = Inr []"
| "map_Number rt (x # xs) =
     (case Number rt (Some x) of
        Inl e \<Rightarrow> Inl e
      | Inr n \<Rightarrow> (case map_Number rt xs of Inl e \<Rightarrow> Inl e | Inr ns \<Rightarrow> Inr (n # ns)))"

text \<open>\<^verbatim>\<open>Array.from({length: 24}, () => Number(priceRow.last ?? 100))\<close>\<close>

definition flat_series :: "price_row \<Rightarrow> jsnum list" where
  "flat_series row = replicate 24 (Fin (case last_price row of Some q \<Rightarrow> q | None \<Rightarrow> 100))"

text \<open>
  The local \<^verbatim>\<open>series\<close> of \<^verbatim>\<open>drawSpark\<close>: the finite entries of a non-empty
  \<^verbatim>\<open>priceRow.series\<close>, or the flat line when there are fewer than two.
\<close>

definition spark_series :: "runtime \<Rightarrow> price_row \<Rightarrow> error + jsnum list" where
  "spark_series rt row =
     (case series row of
        None \<Rightarrow> Inr (flat_series row)
      | Some xs \<Rightarrow>
          if xs = [] then Inr (flat_series row)
          else (case map_Number rt xs of
                  Inl e \<Rightarrow> Inl e
                | Inr ns \<Rightarrow>
                    if length (filter js_isFinite ns) < 2 then Inr (flat_series row)
                    else Inr (filter js_isFinite ns)))"

text \<open>\<open>x \<le> y\<close> on numbers other than NaN.\<close>

definition jle :: "jsnum \<Rightarrow> jsnum \<Rightarrow> bool" where
  "jle x y =
     (case (x, y) of
        (Fin a, Fin b) \<Rightarrow> a \<le> b
      | (NInf, _) \<Rightarrow> True
      | (_, PInf) \<Rightarrow> True
      | _ \<Rightarrow> False)"

text \<open>\<^verbatim>\<open>Math.min(...xs)\<close> and \<^verbatim>\<open>Math.max(...xs)\<close>: NaN when an argument is, the infinity
  when there is no argument.\<close>

definition math_min :: "jsnum list \<Rightarrow> jsnum" where
  "math_min xs = (if NaN \<in> set xs then NaN else fold (\<lambda>x m. if jle x m then x else m) xs PInf)"

definition math_max :: "jsnum list \<Rightarrow> jsnum" where
  "math_max xs = (if NaN \<in> set xs then NaN else fold (\<lambda>x m. if jle m x then x else m) xs NInf)"

text \<open>The constants \<^verbatim>\<open>w\<close>, \<^verbatim>\<open>h\<close> and \<^verbatim>\<open>pad\<close> of \<^verbatim>\<open>drawSpark\<close>.\<close>

definition spark_w :: rat where
  "spark_w = 600"

definition spark_h :: rat where
  "spark_h = 220"

definition spark_pad :: rat where
  "spark_pad = 14"

text \<open>\<^verbatim>\<open>(max - min) || 1\<close>: a number is false in a condition when it is 0 or NaN.\<close>

definition spark_span :: "jsnum list \<Rightarrow> jsnum" where
  "spark_span s =
     (let d = jsub (math_max s) (math_min s) in if d = Fin 0 \<or> d = NaN then Fin 1 else d)"

text \<open>
  One point of \<^verbatim>\<open>pts\<close>. The differences \<^verbatim>\<open>w - 2*pad\<close>, \<^verbatim>\<open>h - 2*pad\<close> and
  \<^verbatim>\<open>series.length - 1\<close> are small integers, computed without rounding.
\<close>

definition spark_point :: "jsnum list \<Rightarrow> nat \<Rightarrow> jsnum \<Rightarrow> jsnum \<times> jsnum" where
  "spark_point s i v =
     (jadd (Fin spark_pad) (jdiv (jmul (Fin (of_nat i)) (Fin (spark_w - 2 * spark_pad)))
                           (Fin (of_int (int (length s) - 1)))),
      jadd (Fin spark_pad) (jdiv (jmul (jsub (math_max s) v) (Fin (spark_h - 2 * spark_pad))) (spark_span s)))"

text \<open>\<^verbatim>\<open>series.map((v, i) => [x, y])\<close>\<close>

definition spark_points :: "jsnum list \<Rightarrow> (jsnum \<times> jsnum) list" where
  "spark_points s = map (\<lambda>(i, v). spark_point s i v) (enumerate 0 s)"

text \<open>A path command \<^verbatim>\<open>`M ${x} ${y}`\<close> or \<^verbatim>\<open>`L ${x} ${y}`\<close>, and \<^verbatim>\<open>join(" ")\<close>.\<close>

definition path_cmd :: "runtime \<Rightarrow> string \<Rightarrow> jsnum \<times> jsnum \<Rightarrow> string" where
  "path_cmd rt c p = c @ '' '' @ number_to_string rt (fst p) @ '' '' @ number_to_string rt (snd p)"

fun join_space :: "string list \<Rightarrow> string" where
  "join_space [] = []"
| "join_space [s] = s"
| "join_space (s # t # ts) = s @ '' '' @ join_space (t # ts)"

text \<open>What \<^verbatim>\<open>drawSpark\<close> puts into the chart: the two path data and the marker.\<close>

record spark =
  area_d :: string
  line_d :: string
  dot_cx :: string
  dot_cy :: string

text \<open>The commands of the fill area and of the line, before they are joined.\<close>

definition area_cmds :: "runtime \<Rightarrow> (jsnum \<times> jsnum) list \<Rightarrow> string list" where
  "area_cmds rt pts =
     [path_cmd rt ''M'' (fst (hd pts), Fin (spark_h - spark_pad)), path_cmd rt ''L'' (hd pts)]
       @ map (path_cmd rt ''L'') (tl pts)
       @ [path_cmd rt ''L'' (fst (last pts), Fin (spark_h - spark_pad)), ''Z'']"

definition line_cmds :: "runtime \<Rightarrow> (jsnum \<times> jsnum) list \<Rightarrow> string list" where
  "line_cmds rt pts = path_cmd rt ''M'' (hd pts) # map (path_cmd rt ''L'') (tl pts)"

text \<open>
  \<^verbatim>\<open>drawSpark(priceRow)\<close>. The calls \<^verbatim>\<open>Math.min(...series)\<close> and \<^verbatim>\<open>Math.max(...series)\<close>
  pass every entry as an argument, and throw a RangeError when the host does not accept that
  many. Reading \<^verbatim>\<open>pts[0][0]\<close> of an empty \<^verbatim>\<open>pts\<close> would throw a TypeError.
\<close>

definition drawSpark :: "runtime \<Rightarrow> price_row \<Rightarrow> error + spark" where
  "drawSpark rt row =
     (case spark_series rt row of
        Inl e \<Rightarrow> Inl e
      | Inr s \<Rightarrow>
          if max_arguments rt < length s then Inl RangeError
          else (let pts = spark_points s
                in if pts = [] then Inl TypeError
                   else Inr \<lparr> area_d = join_space (area_cmds rt pts),
                              line_d = join_space (line_cmds rt pts),
                              dot_cx = number_to_string rt (fst (last pts)),
                              dot_cy = number_to_string rt (snd (last pts)) \<rparr>))"

section \<open>The order composer\<close>

text \<open>The fields of the trade form, each the \<^verbatim>\<open>value\<close> of its element: a string.\<close>

record form =
  fTeam :: string
  fSide :: string
  fTicker :: string
  fQty :: string
  fType :: string
  fLimit :: string
  fNotes :: string

text \<open>\<^verbatim>\<open>Number(el("fQty").value || 0)\<close>: the empty string is false in a condition.\<close>

definition form_qty :: "form \<Rightarrow> jsnum" where
  "form_qty f = (if fQty f = [] then Fin 0 else StringToNumber (fQty f))"

text \<open>\<^verbatim>\<open>(el("fTeam").value || "").trim() || "team1"\<close>\<close>

definition form_team :: "form \<Rightarrow> string" where
  "form_team f = (if trim (fTeam f) = [] then ''team1'' else trim (fTeam f))"

text \<open>The local \<^verbatim>\<open>lines\<close> of \<^verbatim>\<open>issueBodyFromForm\<close>, after the two pushes.\<close>

definition issue_lines :: "runtime \<Rightarrow> form \<Rightarrow> string list" where
  "issue_lines rt f =
     [''team: '' @ form_team f,
      ''side: '' @ fSide f,
      ''ticker: '' @ toUpperCase rt (trim (fTicker f)),
      ''qty: '' @ number_to_string rt (form_qty f),
      ''order_type: '' @ fType f]
     @ (if fType f = ''LIMIT'' \<and> trim (fLimit f) \<noteq> [] then [''limit_price: '' @ trim (fLimit f)]
        else [])
     @ (if trim (fNotes f) \<noteq> [] then [''notes: '' @ trim (fNotes f)] else [])"

text \<open>\<^verbatim>\<open>lines.join("\n")\<close>\<close>

fun join_lines :: "string list \<Rightarrow> string" where
  "join_lines [] = []"
| "join_lines [s] = s"
| "join_lines (s # t # ts) = s @ [CHR 0x0A] @ join_lines (t # ts)"

definition issueBodyFromForm :: "runtime \<Rightarrow> form \<Rightarrow> string" where
  "issueBodyFromForm rt f = join_lines (issue_lines rt f)"

section \<open>The watchlist\<close>

subsection \<open>Comparison and sorting\<close>

text \<open>
  \<^verbatim>\<open>ToPrimitive\<close>: an array or an object becomes the string it prints as; every other
  value, \<^verbatim>\<open>undefined\<close> included, is primitive already.
\<close>

definition ToPrimitive :: "runtime \<Rightarrow> json option \<Rightarrow> error + json option" where
  "ToPrimitive rt v =
     (case v of
        Some (JArr xs) \<Rightarrow>
          (case ToString rt (JArr xs) of Inl e \<Rightarrow> Inl e | Inr s \<Rightarrow> Inr (Some (JStr s)))
      | Some (JObj kvs) \<Rightarrow>
          (case ToString rt (JObj kvs) of Inl e \<Rightarrow> Inl e | Inr s \<Rightarrow> Inr (Some (JStr s)))
      | _ \<Rightarrow> Inr v)"

text \<open>
  Strings compare by UTF-16 code units, the shorter first when one is a prefix of the other.
  On the UTF-8 bytes that is the order of the first bytes that differ, except that a character
  beyond \<^verbatim>\<open>U+FFFF\<close> (a surrogate pair; four bytes, the first from \<^verbatim>\<open>F0\<close> on) comes before
  the characters \<^verbatim>\<open>U+E000\<close> to \<^verbatim>\<open>U+FFFF\<close>, whose first byte is \<^verbatim>\<open>EE\<close> or \<^verbatim>\<open>EF\<close>.
\<close>

definition order_unit :: "char \<Rightarrow> nat" where
  "order_unit c = (if code_unit c = 0xEE \<or> code_unit c = 0xEF then code_unit c + 16 else code_unit c)"

fun str_less :: "string \<Rightarrow> string \<Rightarrow> bool" where
  "str_less [] [] = False"
| "str_less [] (d # ds) = True"
| "str_less (c # cs) [] = False"
| "str_less (c # cs) (d # ds) =
     (order_unit c < order_unit d \<or> (order_unit c = order_unit d \<and> str_less cs ds))"

definition num_less :: "jsnum \<Rightarrow> jsnum \<Rightarrow> bool" where
  "num_less x y = (x \<noteq> NaN \<and> y \<noteq> NaN \<and> jle x y \<and> x \<noteq> y)"

text \<open>The number a primitive value coerces to.\<close>

definition prim_num :: "json option \<Rightarrow> jsnum" where
  "prim_num p =
     (case p of
        Some JNull \<Rightarrow> Fin 0
      | Some (JBool b) \<Rightarrow> Fin (if b then 1 else 0)
      | Some (JNum n) \<Rightarrow> n
      | Some (JStr s) \<Rightarrow> StringToNumber s
      | _ \<Rightarrow> NaN)"

text \<open>
  \<open>x < y\<close> on primitive values: two strings compare as strings, everything else as the
  numbers it coerces to, and nothing is less than NaN or NaN less than anything.
\<close>

definition prim_less :: "json option \<Rightarrow> json option \<Rightarrow> bool" where
  "prim_less x y =
     (case (x, y) of
        (Some (JStr s), Some (JStr t)) \<Rightarrow> str_less s t
      | _ \<Rightarrow> num_less (prim_num x) (prim_num y))"

text \<open>\<^verbatim>\<open>a > b\<close>\<close>

definition js_gt :: "runtime \<Rightarrow> json option \<Rightarrow> json option \<Rightarrow> error + bool" where
  "js_gt rt a b =
     (case ToPrimitive rt a of
        Inl e \<Rightarrow> Inl e
      | Inr pa \<Rightarrow> (case ToPrimitive rt b of Inl e \<Rightarrow> Inl e | Inr pb \<Rightarrow> Inr (prim_less pb pa)))"

text \<open>
  \<^verbatim>\<open>Array.prototype.sort(cmp)\<close> with a comparator that does not throw. ECMAScript fixes
  the result when the comparator is consistent and leaves it to the engine otherwise. The
  model is the algorithm of V8 for an array of fewer than 64 elements: the leading run is
  found, and reversed when it is strictly descending; every later element is put into the
  sorted prefix by binary search, to the right of the elements it is not less than. (For
  a longer array V8 sorts several such runs and merges them.) \<open>lt a b\<close> is
  \<^verbatim>\<open>cmp(a, b) < 0\<close>.
\<close>

fun run_asc :: "('a \<Rightarrow> 'a \<Rightarrow> bool) \<Rightarrow> 'a \<Rightarrow> 'a list \<Rightarrow> 'a list \<times> 'a list" where
  "run_asc lt p [] = ([], [])"
| "run_asc lt p (x # xs) =
     (if lt x p then ([], x # xs) else (let (r, rest) = run_asc lt x xs in (x # r, rest)))"

fun run_desc :: "('a \<Rightarrow> 'a \<Rightarrow> bool) \<Rightarrow> 'a \<Rightarrow> 'a list \<Rightarrow> 'a list \<times> 'a list" where
  "run_desc lt p [] = ([], [])"
| "run_desc lt p (x # xs) =
     (if lt x p then (let (r, rest) = run_desc lt x xs in (x # r, rest)) else ([], x # xs))"

text \<open>\<^verbatim>\<open>CountAndMakeRun\<close>: the sorted leading run and the elements after it.\<close>

fun make_run :: "('a \<Rightarrow> 'a \<Rightarrow> bool) \<Rightarrow> 'a list \<Rightarrow> 'a list \<times> 'a list" where
  "make_run lt [] = ([], [])"
| "make_run lt [x] = ([x], [])"
| "make_run lt (x # y # ys) =
     (if lt y x then (let (r, rest) = run_desc lt y ys in (rev (x # y # r), rest))
      else (let (r, rest) = run_asc lt y ys in (x # y # r, rest)))"

text \<open>The binary search of \<^verbatim>\<open>BinaryInsertionSort\<close> for the place of \<open>pivot\<close>.\<close>

function insert_pos :: "('a \<Rightarrow> 'a \<Rightarrow> bool) \<Rightarrow> 'a \<Rightarrow> 'a list \<Rightarrow> nat \<Rightarrow> nat \<Rightarrow> nat" where
  "insert_pos lt pivot xs left right =
     (if left < right
      then (let mid = left + (right - left) div 2
            in if lt pivot (xs ! mid) then insert_pos lt pivot xs left mid
               else insert_pos lt pivot xs (mid + 1) right)
      else left)"
  by pat_completeness auto
termination
  by (relation "measure (\<lambda>(lt, pivot, xs, left, right). right - left)") auto

declare insert_pos.simps [simp del]

definition binary_insert :: "('a \<Rightarrow> 'a \<Rightarrow> bool) \<Rightarrow> 'a list \<Rightarrow> 'a \<Rightarrow> 'a list" where
  "binary_insert lt pre pivot =
     (let k = insert_pos lt pivot pre 0 (length pre)
      in take k pre @ [pivot] @ drop k pre)"

definition js_sort :: "('a \<Rightarrow> 'a \<Rightarrow> bool) \<Rightarrow> 'a list \<Rightarrow> 'a list" where
  "js_sort lt xs = (let (r, rest) = make_run lt xs in foldl (binary_insert lt) r rest)"

subsection \<open>\<^verbatim>\<open>renderWatchlist\<close>\<close>

text \<open>
  The comparator \<^verbatim>\<open>(a,b) => (a.ticker > b.ticker ? 1 : -1)\<close>: 1 when
  \<^verbatim>\<open>a.ticker > b.ticker\<close> holds and -1 in every other case, equal tickers included.
\<close>

definition ticker_cmp :: "runtime \<Rightarrow> price_row \<Rightarrow> price_row \<Rightarrow> int" where
  "ticker_cmp rt a b = (if js_gt rt (ticker a) (ticker b) = Inr True then 1 else - 1)"

text \<open>
  The sort of the rows. The comparator throws when a ticker cannot be converted to a
  primitive value; a sort of two or more elements passes every element to it.
\<close>

definition sort_by_ticker :: "runtime \<Rightarrow> price_row list \<Rightarrow> error + price_row list" where
  "sort_by_ticker rt rows =
     (if length rows < 2 then Inr rows
      else if list_ex (\<lambda>r. isl (ToPrimitive rt (ticker r))) rows then Inl TypeError
      else Inr (js_sort (\<lambda>a b. ticker_cmp rt a b < 0) rows))"

text \<open>The search text as the filter uses it.\<close>

definition search_key :: "runtime \<Rightarrow> string \<Rightarrow> string" where
  "search_key rt s = toUpperCase rt (trim s)"

text \<open>\<^verbatim>\<open>`${r.ticker} ${r.company}`.toUpperCase().includes(q)\<close>\<close>

definition hay_includes :: "runtime \<Rightarrow> string \<Rightarrow> price_row \<Rightarrow> error + bool" where
  "hay_includes rt q r =
     (case ToString_opt rt (ticker r) of
        Inl e \<Rightarrow> Inl e
      | Inr t \<Rightarrow>
          (case ToString rt (company r) of
             Inl e \<Rightarrow> Inl e
           | Inr c \<Rightarrow> Inr (includes_str (toUpperCase rt (t @ [CHR 0x20] @ c)) q)))"

text \<open>The third filter; it prints a row only when the search text is not empty.\<close>

fun filter_search :: "runtime \<Rightarrow> string \<Rightarrow> price_row list \<Rightarrow> error + price_row list" where
  "filter_search rt q [] = Inr []"
| "filter_search rt q (r # rs) =
     (case (if q = [] then Inr True else hay_includes rt q r) of
        Inl e \<Rightarrow> Inl e
      | Inr keep \<Rightarrow>
          (case filter_search rt q rs of
             Inl e \<Rightarrow> Inl e
           | Inr rs' \<Rightarrow> Inr (if keep then r # rs' else rs')))"

text \<open>
  The local \<^verbatim>\<open>rows\<close> of \<^verbatim>\<open>renderWatchlist\<close>, from the prices, the value of the search
  input and the value of the sector filter.
\<close>

definition watchlist_rows ::
  "runtime \<Rightarrow> price_row list \<Rightarrow> string \<Rightarrow> string \<Rightarrow> error + price_row list" where
  "watchlist_rows rt prices searchInput sectorFilter =
     (case filter_search rt (search_key rt searchInput)
             (filter (\<lambda>r. sectorFilter = [] \<or> sector r = JStr sectorFilter)
                (filter (\<lambda>r. truthy (ticker r)) prices)) of
        Inl e \<Rightarrow> Inl e
      | Inr rs \<Rightarrow> sort_by_ticker rt rs)"

text \<open>
  The placeholder \<^verbatim>\<open>"\<emdash>"\<close> (U+2014, here its three UTF-8 bytes), the double quote and the
  line break of the templates.
\<close>

definition dash :: string where
  "dash = [CHR 0xE2, CHR 0x80, CHR 0x94]"

definition dq :: string where
  "dq = [CHR 0x22]"

definition nl :: string where
  "nl = [CHR 0x0A]"

text \<open>
  \<^verbatim>\<open>fmtNum(x, 2)\<close> and \<^verbatim>\<open>fmtInt(x)\<close> on a field of a normalised row, which is \<^verbatim>\<open>null\<close>
  or a finite number. \<^verbatim>\<open>Math.round\<close> rounds halves up, and a value from \<open>-0.5\<close> up to 0
  to \<^verbatim>\<open>-0\<close>, which \<^verbatim>\<open>toLocaleString\<close> prints with its sign.
\<close>

definition fmtNum :: "runtime \<Rightarrow> rat option \<Rightarrow> string" where
  "fmtNum rt x = (case x of None \<Rightarrow> dash | Some q \<Rightarrow> toFixed rt q 2)"

definition fmtInt :: "runtime \<Rightarrow> rat option \<Rightarrow> string" where
  "fmtInt rt x =
     (case x of
        None \<Rightarrow> dash
      | Some q \<Rightarrow>
          if - (1 / 2) \<le> q \<and> q < 0 then minus_zero rt
          else toLocaleString rt (of_int \<lfloor>q + 1 / 2\<rfloor>))"

text \<open>\<^verbatim>\<open>a || b || ""\<close>: the first operand that is true in a condition.\<close>

definition first_truthy :: "json \<Rightarrow> json \<Rightarrow> json" where
  "first_truthy a b = (if truthy (Some a) then a else if truthy (Some b) then b else JStr [])"

text \<open>\<^verbatim>\<open>r.chg === null ? "" : (r.chg >= 0 ? "pos" : "neg")\<close>\<close>

definition chgClass :: "price_row \<Rightarrow> string" where
  "chgClass r = (case chg r of None \<Rightarrow> [] | Some c \<Rightarrow> if 0 \<le> c then ''pos'' else ''neg'')"

text \<open>
  The \<^verbatim>\<open>innerHTML\<close> given to the table row of \<open>r\<close>. The ticker and the name go into the
  markup as they print.
\<close>

definition row_html :: "runtime \<Rightarrow> price_row \<Rightarrow> error + string" where
  "row_html rt r =
     (case ToString_opt rt (ticker r) of
        Inl e \<Rightarrow> Inl e
      | Inr t \<Rightarrow>
          (case ToString rt (first_truthy (company r) (sector r)) of
             Inl e \<Rightarrow> Inl e
           | Inr name \<Rightarrow>
               Inr (nl @ ''      <td>'' @ nl
                    @ ''        <div class='' @ dq @ ''ticker'' @ dq @ ''>'' @ t @ ''</div>'' @ nl
                    @ ''        <div class='' @ dq @ ''small muted'' @ dq @ ''>'' @ name @ ''</div>'' @ nl
                    @ ''      </td>'' @ nl
                    @ ''      <td class='' @ dq @ ''right'' @ dq @ ''>''
                        @ (case last_price r of None \<Rightarrow> dash | Some q \<Rightarrow> fmtNum rt (Some q))
                        @ ''</td>'' @ nl
                    @ ''      <td class='' @ dq @ ''right '' @ chgClass r @ dq @ ''>''
                        @ (case chg r of None \<Rightarrow> dash | Some q \<Rightarrow> fmtNum rt (Some q))
                        @ ''</td>'' @ nl
                    @ ''      <td class='' @ dq @ ''right '' @ chgClass r @ dq @ ''>''
                        @ (case pctChg r of None \<Rightarrow> dash | Some q \<Rightarrow> fmtNum rt (Some q) @ ''%'')
                        @ ''</td>'' @ nl
                    @ ''      <td class='' @ dq @ ''right'' @ dq @ ''>''
                        @ (case volume r of None \<Rightarrow> dash | Some q \<Rightarrow> fmtInt rt (Some q))
                        @ ''</td>'' @ nl
                    @ ''    '')))"

fun rows_html :: "runtime \<Rightarrow> price_row list \<Rightarrow> error + string list" where
  "rows_html rt [] = Inr []"
| "rows_html rt (r # rs) =
     (case row_html rt r of
        Inl e \<Rightarrow> Inl e
      | Inr x \<Rightarrow> (case rows_html rt rs of Inl e \<Rightarrow> Inl e | Inr xs \<Rightarrow> Inr (x # xs)))"

text \<open>
  What \<^verbatim>\<open>renderWatchlist\<close> shows: the placeholder row when no row is left, or the rows
  and the count under the table.
\<close>

datatype watch_view = NoTickers | Tickers "string list" string

definition renderWatchlist ::
  "runtime \<Rightarrow> price_row list \<Rightarrow> string \<Rightarrow> string \<Rightarrow> error + watch_view" where
  "renderWatchlist rt prices searchInput sectorFilter =
     (case watchlist_rows rt prices searchInput sectorFilter of
        Inl e \<Rightarrow> Inl e
      | Inr rows \<Rightarrow>
          if rows = [] then Inr NoTickers
          else (case rows_html rt rows of
                  Inl e \<Rightarrow> Inl e
                | Inr cells \<Rightarrow>
                    Inr (Tickers cells (toLocaleString rt (of_nat (length rows)) @ '' tickers''))))"

subsection \<open>\<^verbatim>\<open>escapeHtml\<close>\<close>

text \<open>\<^verbatim>\<open>s.replaceAll(c, t)\<close> for a one-character pattern.\<close>

definition replaceAll :: "char \<Rightarrow> string \<Rightarrow> string \<Rightarrow> string" where
  "replaceAll c t s = concat (map (\<lambda>x. if x = c then t else [x]) s)"

text \<open>\<^verbatim>\<open>escapeHtml\<close> on a string, the five replacements in the order of the source.\<close>

definition escapeHtml :: "string \<Rightarrow> string" where
  "escapeHtml s =
     replaceAll (CHR 0x27) ''&#039;''
       (replaceAll (CHR 0x22) ''&quot;''
          (replaceAll CHR ''>'' ''&gt;''
             (replaceAll CHR ''<'' ''&lt;''
                (replaceAll CHR ''&'' ''&amp;'' s))))"

section \<open>News, leaderboard and the view state\<close>

subsection \<open>The other two normalisers\<close>

record news_row =
  n_ticker :: json
  n_company :: json
  headline :: json
  n_timestamp :: json
  eventType :: json
  sentiment :: json
  n_regime :: json
  n_raw :: json

text \<open>\<^verbatim>\<open>normalizeNewsRow(n)\<close>\<close>

definition normalizeNewsRow :: "json \<Rightarrow> error + news_row" where
  "normalizeNewsRow n =
     (if n = JNull then Inl TypeError
      else Inr \<lparr> n_ticker = first_defined [prop_of n ''ticker'', prop_of n ''symbol''] (JStr []),
                 n_company = first_defined [prop_of n ''company_name''] (JStr []),
                 headline = first_defined [prop_of n ''headline'', prop_of n ''title''] (JStr []),
                 n_timestamp = first_defined [prop_of n ''timestamp'', prop_of n ''time'',
                                              prop_of n ''date''] (JStr []),
                 eventType = first_defined [prop_of n ''event_type'', prop_of n ''type''] (JStr []),
                 sentiment = first_defined [prop_of n ''sentiment''] (JStr []),
                 n_regime = first_defined [prop_of n ''regime''] (JStr []),
                 n_raw = n \<rparr>)"

record leader_row =
  team :: json
  nav :: jsnum
  cash :: jsnum
  realized_pnl :: jsnum

text \<open>\<^verbatim>\<open>normalizeLeaderRow(r)\<close>\<close>

definition normalizeLeaderRow :: "runtime \<Rightarrow> json \<Rightarrow> error + leader_row" where
  "normalizeLeaderRow rt r =
     (if r = JNull then Inl TypeError
      else
        case Number rt (coalesce [prop_of r ''nav'', prop_of r ''NAV'', prop_of r ''value'',
                                  prop_of r ''Value'']) of Inl e \<Rightarrow> Inl e | Inr nv \<Rightarrow>
        case Number rt (coalesce [prop_of r ''cash'', prop_of r ''Cash'']) of Inl e \<Rightarrow> Inl e | Inr ca \<Rightarrow>
        case Number rt (coalesce [prop_of r ''realized_pnl'', prop_of r ''RealizedPnL'',
                                  prop_of r ''pnl'', prop_of r ''PnL'']) of Inl e \<Rightarrow> Inl e | Inr pn \<Rightarrow>
        Inr \<lparr> team = first_defined [prop_of r ''team'', prop_of r ''Team''] (JStr []),
              nav = nv, cash = ca, realized_pnl = pn \<rparr>)"

text \<open>\<^verbatim>\<open>xs.map(f)\<close> for an \<open>f\<close> that can throw: the first exception ends the loop.\<close>

fun map_rows :: "('a \<Rightarrow> error + 'b) \<Rightarrow> 'a list \<Rightarrow> error + 'b list" where
  "map_rows f [] = Inr []"
| "map_rows f (x # xs) =
     (case f x of
        Inl e \<Rightarrow> Inl e
      | Inr y \<Rightarrow> (case map_rows f xs of Inl e \<Rightarrow> Inl e | Inr ys \<Rightarrow> Inr (y # ys)))"

text \<open>
  \<^verbatim>\<open>nArr.sort((a,b) => String(b.timestamp).localeCompare(String(a.timestamp)))\<close>: the
  comparator prints both timestamps, and a sort of two or more items passes every item to it.
\<close>

definition ts_string :: "runtime \<Rightarrow> news_row \<Rightarrow> string" where
  "ts_string rt n = (case ToString rt (n_timestamp n) of Inr s \<Rightarrow> s | Inl e \<Rightarrow> [])"

definition sort_news :: "runtime \<Rightarrow> news_row list \<Rightarrow> error + news_row list" where
  "sort_news rt ns =
     (if length ns < 2 then Inr ns
      else if list_ex (\<lambda>n. isl (ToString rt (n_timestamp n))) ns then Inl TypeError
      else Inr (js_sort (\<lambda>a b. localeCompare rt (ts_string rt b) (ts_string rt a) < 0) ns))"

text \<open>
  The first statements of \<^verbatim>\<open>refresh\<close>, up to the sorted news: the three collections, or
  the exception that ends them.
\<close>

definition normalize_all ::
  "runtime \<Rightarrow> json \<Rightarrow> json \<Rightarrow> json \<Rightarrow> error + price_row list \<times> news_row list \<times> leader_row list" where
  "normalize_all rt pRaw nRaw lRaw =
     (case map_rows (normalizePriceRow rt) (asArray pRaw) of Inl e \<Rightarrow> Inl e | Inr ps \<Rightarrow>
      case map_rows normalizeNewsRow (asArray nRaw) of Inl e \<Rightarrow> Inl e | Inr ns \<Rightarrow>
      case map_rows (normalizeLeaderRow rt) (asArray lRaw) of Inl e \<Rightarrow> Inl e | Inr ls \<Rightarrow>
      case sort_news rt ns of Inl e \<Rightarrow> Inl e | Inr sorted_ns \<Rightarrow>
      Inr (filter (\<lambda>r. truthy (ticker r)) ps, sorted_ns, ls))"

subsection \<open>The state\<close>

text \<open>
  The global \<^verbatim>\<open>state\<close>. \<open>sectors\<close> lists the members of the set in insertion order.
  \<open>selected\<close> is a reference to a row object: \<open>selected_at\<close> is the index of that object in
  the array \<open>prices\<close> when it is one of its rows, and \<open>None\<close> when it is a row of an array
  that \<open>prices\<close> has been replaced since.
\<close>

record state =
  prices :: "price_row list"
  news :: "news_row list"
  leaderboard :: "leader_row list"
  sectors :: "json list"
  selected :: "price_row option"
  selected_at :: "nat option"

text \<open>
  \<^verbatim>\<open>x === y\<close> for two values that are not one object: two arrays or objects are never
  equal, and \<^verbatim>\<open>NaN\<close> is not equal to itself.
\<close>

definition strict_eq :: "json option \<Rightarrow> json option \<Rightarrow> bool" where
  "strict_eq x y =
     (case (x, y) of
        (None, None) \<Rightarrow> True
      | (Some JNull, Some JNull) \<Rightarrow> True
      | (Some (JBool a), Some (JBool b)) \<Rightarrow> a = b
      | (Some (JNum a), Some (JNum b)) \<Rightarrow> a \<noteq> NaN \<and> a = b
      | (Some (JStr a), Some (JStr b)) \<Rightarrow> a = b
      | _ \<Rightarrow> False)"

text \<open>
  \<^verbatim>\<open>x === y\<close> for two values read from the rows: \<open>one\<close> says that they were read from the same
  property of the same row object, so that an array or object is compared with itself. The
  payloads are parsed JSON, where no two rows share an array or object.
\<close>

definition is_object :: "json option \<Rightarrow> bool" where
  "is_object x = (case x of Some (JArr _) \<Rightarrow> True | Some (JObj _) \<Rightarrow> True | _ \<Rightarrow> False)"

definition same_ticker :: "bool \<Rightarrow> json option \<Rightarrow> json option \<Rightarrow> bool" where
  "same_ticker one x y = (if is_object x \<and> is_object y then one else strict_eq x y)"

text \<open>\<^verbatim>\<open>new Set(values)\<close>: a value is added when no member is the same value.\<close>

definition same_value_zero :: "json \<Rightarrow> json \<Rightarrow> bool" where
  "same_value_zero x y = (strict_eq (Some x) (Some y) \<or> (x = JNum NaN \<and> y = JNum NaN))"

definition new_Set :: "json list \<Rightarrow> json list" where
  "new_Set xs = foldl (\<lambda>acc x. if list_ex (same_value_zero x) acc then acc else acc @ [x]) [] xs"

text \<open>
  The four assignments of \<^verbatim>\<open>refresh\<close>. The rows of \<open>pArr\<close> are new objects, so the
  selected row is none of them.
\<close>

definition assemble :: "state \<Rightarrow> price_row list \<times> news_row list \<times> leader_row list \<Rightarrow> state" where
  "assemble st cols =
     (case cols of (pArr, nArr, lArr) \<Rightarrow>
        st \<lparr> prices := pArr, news := nArr, leaderboard := lArr,
             sectors := new_Set (filter (\<lambda>s. truthy (Some s)) (map sector pArr)),
             selected_at := None \<rparr>)"

subsection \<open>The renderers\<close>

text \<open>The two inputs of the page that the renderers read.\<close>

record ui =
  searchInput :: string
  sectorFilter :: string

text \<open>The separator \<^verbatim>\<open>" \<bullet> "\<close> (U+2022, its three UTF-8 bytes between two spaces).\<close>

definition bullet :: string where
  "bullet = [CHR 0x20, CHR 0xE2, CHR 0x80, CHR 0xA2, CHR 0x20]"

text \<open>
  \<^verbatim>\<open>fillSectorFilter()\<close>: the options, one per sector in the order of the default sort
  (by the strings the sectors print as), and the value the select has afterwards: the value
  it had when an option carries it, and the empty value of \<^verbatim>\<open>All sectors\<close> otherwise.
\<close>

definition fillSectorFilter :: "runtime \<Rightarrow> state \<Rightarrow> ui \<Rightarrow> error + string list \<times> ui" where
  "fillSectorFilter rt st u =
     (case map_rows (ToString rt) (sectors st) of
        Inl e \<Rightarrow> Inl e
      | Inr ss \<Rightarrow>
          Inr (js_sort str_less ss,
               u \<lparr> sectorFilter := (if sectorFilter u \<in> set ([] # ss) then sectorFilter u else []) \<rparr>))"

text \<open>
  The title of a news item and of the detail panel:
  \<^verbatim>\<open>company ? `${ticker} (${company})` : `${ticker}`\<close>.
\<close>

definition title_of :: "runtime \<Rightarrow> json option \<Rightarrow> json \<Rightarrow> error + string" where
  "title_of rt t c =
     (case ToString_opt rt t of
        Inl e \<Rightarrow> Inl e
      | Inr ts \<Rightarrow>
          if truthy (Some c)
          then (case ToString rt c of Inl e \<Rightarrow> Inl e | Inr cs \<Rightarrow> Inr (ts @ '' ('' @ cs @ '')''))
          else Inr ts)"

text \<open>\<^verbatim>\<open>escapeHtml(x || "")\<close> on a field of a news item.\<close>

definition escaped_field :: "runtime \<Rightarrow> json \<Rightarrow> error + string" where
  "escaped_field rt x =
     (case ToString rt (first_truthy x (JStr [])) of Inl e \<Rightarrow> Inl e | Inr s \<Rightarrow> Inr (escapeHtml s))"

text \<open>The \<^verbatim>\<open>innerHTML\<close> of one news item.\<close>

definition news_html :: "runtime \<Rightarrow> news_row \<Rightarrow> error + string" where
  "news_html rt n =
     (case title_of rt (Some (n_ticker n)) (n_company n) of Inl e \<Rightarrow> Inl e | Inr title \<Rightarrow>
      case escaped_field rt (n_timestamp n) of Inl e \<Rightarrow> Inl e | Inr ts \<Rightarrow>
      case escaped_field rt (eventType n) of Inl e \<Rightarrow> Inl e | Inr ev \<Rightarrow>
      case (if truthy (Some (n_regime n))
            then (case ToString rt (n_regime n) of
                    Inl e \<Rightarrow> Inl e | Inr s \<Rightarrow> Inr (bullet @ escapeHtml s))
            else Inr []) of Inl e \<Rightarrow> Inl e | Inr rg \<Rightarrow>
      case escaped_field rt (headline n) of Inl e \<Rightarrow> Inl e | Inr hl \<Rightarrow>
      Inr (nl @ ''      <div class='' @ dq @ ''news-head'' @ dq @ ''>'' @ nl
           @ ''        <div class='' @ dq @ ''news-title'' @ dq @ ''>'' @ escapeHtml title @ ''</div>'' @ nl
           @ ''        <div class='' @ dq @ ''news-meta'' @ dq @ ''>'' @ ts @ ''</div>'' @ nl
           @ ''      </div>'' @ nl
           @ ''      <div class='' @ dq @ ''news-type'' @ dq @ ''>'' @ ev @ rg @ ''</div>'' @ nl
           @ ''      <div class='' @ dq @ ''news-body'' @ dq @ ''>'' @ hl @ ''</div>'' @ nl
           @ ''    ''))"

text \<open>\<^verbatim>\<open>renderNews()\<close>: \<open>None\<close> is the placeholder \<^verbatim>\<open>No news yet.\<close>\<close>

definition renderNews :: "runtime \<Rightarrow> state \<Rightarrow> error + string list option" where
  "renderNews rt st =
     (if take 50 (news st) = [] then Inr None
      else (case map_rows (news_html rt) (take 50 (news st)) of
              Inl e \<Rightarrow> Inl e
            | Inr items \<Rightarrow> Inr (Some items)))"

text \<open>\<^verbatim>\<open>isFinite(x) ? fmtNum(x, 2) : "\<emdash>"\<close>\<close>

definition fmt_finite :: "runtime \<Rightarrow> jsnum \<Rightarrow> string" where
  "fmt_finite rt x = (case x of Fin q \<Rightarrow> toFixed rt q 2 | _ \<Rightarrow> dash)"

definition pnlClass :: "leader_row \<Rightarrow> string" where
  "pnlClass r = (case realized_pnl r of Fin q \<Rightarrow> if 0 \<le> q then ''pos'' else ''neg'' | _ \<Rightarrow> [])"

text \<open>The \<^verbatim>\<open>innerHTML\<close> of one leaderboard row; the team goes in as it prints.\<close>

definition leader_html :: "runtime \<Rightarrow> leader_row \<Rightarrow> error + string" where
  "leader_html rt r =
     (case ToString rt (team r) of
        Inl e \<Rightarrow> Inl e
      | Inr t \<Rightarrow>
          Inr (nl @ ''      <td><span class='' @ dq @ ''ticker'' @ dq @ ''>'' @ t @ ''</span></td>'' @ nl
               @ ''      <td class='' @ dq @ ''right'' @ dq @ ''>'' @ fmt_finite rt (nav r) @ ''</td>'' @ nl
               @ ''      <td class='' @ dq @ ''right'' @ dq @ ''>'' @ fmt_finite rt (cash r) @ ''</td>'' @ nl
               @ ''      <td class='' @ dq @ ''right '' @ pnlClass r @ dq @ ''>''
                   @ fmt_finite rt (realized_pnl r) @ ''</td>'' @ nl
               @ ''    ''))"

text \<open>
  \<^verbatim>\<open>renderLeaderboard()\<close>: the rows with a team, by \<^verbatim>\<open>(a,b) => (b.nav - a.nav)\<close>, a
  comparator that does not throw and whose NaN counts as 0. \<open>None\<close> is the placeholder.
\<close>

definition renderLeaderboard :: "runtime \<Rightarrow> state \<Rightarrow> error + string list option" where
  "renderLeaderboard rt st =
     (let rows = js_sort (\<lambda>a b. num_less (jsub (nav b) (nav a)) (Fin 0))
                   (filter (\<lambda>r. truthy (Some (team r))) (leaderboard st))
      in if rows = [] then Inr None
         else (case map_rows (leader_html rt) rows of
                 Inl e \<Rightarrow> Inl e
               | Inr cells \<Rightarrow> Inr (Some cells)))"

text \<open>
  The subtitle: \<^verbatim>\<open>any?.timestamp || any?.raw?.timestamp || ""\<close> of the first price row,
  printed after \<^verbatim>\<open>Latest bar: \<close> when it is true in a condition.
\<close>

definition subtitle_of :: "runtime \<Rightarrow> price_row list \<Rightarrow> error + string" where
  "subtitle_of rt pArr =
     (let ts = (case pArr of
                  [] \<Rightarrow> JStr []
                | p # _ \<Rightarrow>
                    if truthy (Some (timestamp p)) then timestamp p
                    else if truthy (prop_of (raw p) ''timestamp'')
                    then (case prop_of (raw p) ''timestamp'' of Some j \<Rightarrow> j | None \<Rightarrow> JStr [])
                    else JStr [])
      in if truthy (Some ts)
         then (case ToString rt ts of Inl e \<Rightarrow> Inl e | Inr s \<Rightarrow> Inr (''Latest bar: '' @ s))
         else Inr ''Latest bar: (not available yet)'')"

text \<open>What the page shows after the renderers of \<^verbatim>\<open>refresh\<close> have run.\<close>

record page =
  sector_options :: "string list"
  inputs :: ui
  watchlist :: watch_view
  newsList :: "string list option"
  leaderTable :: "string list option"
  subtitle :: string

definition render_all :: "runtime \<Rightarrow> ui \<Rightarrow> state \<Rightarrow> error + page" where
  "render_all rt u st =
     (case fillSectorFilter rt st u of Inl e \<Rightarrow> Inl e | Inr (opts, u') \<Rightarrow>
      case renderWatchlist rt (prices st) (searchInput u') (sectorFilter u') of
        Inl e \<Rightarrow> Inl e | Inr wl \<Rightarrow>
      case renderNews rt st of Inl e \<Rightarrow> Inl e | Inr nw \<Rightarrow>
      case renderLeaderboard rt st of Inl e \<Rightarrow> Inl e | Inr lb \<Rightarrow>
      case subtitle_of rt (prices st) of Inl e \<Rightarrow> Inl e | Inr sub \<Rightarrow>
      Inr \<lparr> sector_options = opts, inputs = u', watchlist = wl, newsList = nw,
            leaderTable = lb, subtitle = sub \<rparr>)"

subsection \<open>Selection\<close>

text \<open>What \<^verbatim>\<open>selectTicker\<close> writes into the detail panel and the trade form.\<close>

record detail =
  detailTitle :: string
  detailMeta :: string
  chipSector :: string
  chipRegime :: string
  statLast :: string
  statChg :: string
  statChgClass :: string
  statPct :: string
  statVol :: string
  chart :: spark
  fTicker_value :: string

text \<open>\<^verbatim>\<open>x || "\<emdash>"\<close> as the text of an element.\<close>

definition or_dash :: "runtime \<Rightarrow> json \<Rightarrow> error + string" where
  "or_dash rt x = (if truthy (Some x) then ToString rt x else Inr dash)"

text \<open>\<^verbatim>\<open>metaParts.length ? metaParts.join(" \<bullet> ") : "\<emdash>"\<close>\<close>

definition detail_meta :: "runtime \<Rightarrow> price_row \<Rightarrow> error + string" where
  "detail_meta rt r =
     (case (if truthy (Some (macro_headline r))
            then (case ToString rt (macro_headline r) of
                    Inl e \<Rightarrow> Inl e | Inr s \<Rightarrow> Inr [''Macro: '' @ s])
            else Inr []) of
        Inl e \<Rightarrow> Inl e
      | Inr macro \<Rightarrow>
          if truthy (Some (timestamp r))
          then (case ToString rt (timestamp r) of
                  Inl e \<Rightarrow> Inl e
                | Inr s \<Rightarrow> Inr (if macro = [] then s else s @ bullet @ hd macro))
          else Inr (if macro = [] then dash else hd macro))"

text \<open>The statements of \<^verbatim>\<open>selectTicker\<close> after \<^verbatim>\<open>state.selected = r\<close>.\<close>

definition show_detail :: "runtime \<Rightarrow> price_row \<Rightarrow> error + detail" where
  "show_detail rt r =
     (case title_of rt (ticker r) (company r) of Inl e \<Rightarrow> Inl e | Inr title \<Rightarrow>
      case detail_meta rt r of Inl e \<Rightarrow> Inl e | Inr meta \<Rightarrow>
      case or_dash rt (sector r) of Inl e \<Rightarrow> Inl e | Inr sec \<Rightarrow>
      case or_dash rt (regime r) of Inl e \<Rightarrow> Inl e | Inr reg \<Rightarrow>
      case drawSpark rt r of Inl e \<Rightarrow> Inl e | Inr sp \<Rightarrow>
      case (if truthy (ticker r) then ToString_opt rt (ticker r) else Inr []) of
        Inl e \<Rightarrow> Inl e | Inr ft \<Rightarrow>
      Inr \<lparr> detailTitle = title, detailMeta = meta, chipSector = sec, chipRegime = reg,
            statLast = fmtNum rt (last_price r),
            statChg = fmtNum rt (chg r),
            statChgClass = ''value '' @ chgClass r,
            statPct = (case pctChg r of None \<Rightarrow> dash | Some q \<Rightarrow> fmtNum rt (Some q) @ ''%''),
            statVol = fmtInt rt (volume r),
            chart = sp, fTicker_value = ft \<rparr>)"

text \<open>
  \<^verbatim>\<open>selectTicker(ticker)\<close>. The argument is a value and, when the caller read it from the
  ticker of a row of \<^verbatim>\<open>state.prices\<close>, the index of that row. The result is the state
  afterwards, and what the call did: nothing (the ticker is not among the prices), the panel
  it filled, or the exception that ended it after the selection was stored.
\<close>

definition selectTicker ::
  "runtime \<Rightarrow> state \<Rightarrow> nat option \<times> json option \<Rightarrow> state \<times> (error + detail option)" where
  "selectTicker rt st arg =
     (case find (\<lambda>(i, x). same_ticker (fst arg = Some i) (ticker x) (snd arg))
             (enumerate 0 (prices st)) of
        None \<Rightarrow> (st, Inr None)
      | Some (i, r) \<Rightarrow>
          (st \<lparr> selected := Some r, selected_at := Some i \<rparr>,
           case show_detail rt r of Inl e \<Rightarrow> Inl e | Inr d \<Rightarrow> Inr (Some d)))"

text \<open>
  The end of the \<^verbatim>\<open>try\<close> block of \<^verbatim>\<open>refresh\<close>, in its two statements: select the
  first row when nothing is selected, then select again the row that carries the ticker of
  the selection, if there is one.
\<close>

definition auto_select :: "runtime \<Rightarrow> state \<Rightarrow> state \<times> (error + detail option)" where
  "auto_select rt st =
     (if selected st = None \<and> prices st \<noteq> []
      then selectTicker rt st (Some 0, ticker (hd (prices st)))
      else (st, Inr None))"

definition keep_selection :: "runtime \<Rightarrow> state \<Rightarrow> state \<times> (error + detail option)" where
  "keep_selection rt st =
     (case selected st of
        None \<Rightarrow> (st, Inr None)
      | Some s \<Rightarrow>
          (case find (\<lambda>(i, x). same_ticker (selected_at st = Some i) (ticker x) (ticker s))
                  (enumerate 0 (prices st)) of
             None \<Rightarrow> (st, Inr None)
           | Some (i, still) \<Rightarrow> selectTicker rt st (Some i, ticker still)))"

definition reselect :: "runtime \<Rightarrow> state \<Rightarrow> state \<times> (error + detail option)" where
  "reselect rt st =
     (case snd (auto_select rt st) of
        Inl e \<Rightarrow> (fst (auto_select rt st), Inl e)
      | Inr d1 \<Rightarrow>
          (case snd (keep_selection rt (fst (auto_select rt st))) of
             Inl e \<Rightarrow> (fst (keep_selection rt (fst (auto_select rt st))), Inl e)
           | Inr d2 \<Rightarrow>
               (fst (keep_selection rt (fst (auto_select rt st))),
                Inr (case d2 of None \<Rightarrow> d1 | Some d \<Rightarrow> Some d))))"

subsection \<open>\<^verbatim>\<open>refresh\<close>\<close>

text \<open>
  \<^verbatim>\<open>refresh()\<close>, from the three values the fetches resolved to (\<^verbatim>\<open>{}\<close> for a fetch that
  failed). The result is the state afterwards and what the page shows: the rendered page
  and the detail panel, or the exception the \<^verbatim>\<open>catch\<close> block reports. An exception leaves
  the state as the statements before it made it.
\<close>

definition refresh ::
  "runtime \<Rightarrow> ui \<Rightarrow> state \<Rightarrow> json \<Rightarrow> json \<Rightarrow> json \<Rightarrow> state \<times> (error + page \<times> detail option)" where
  "refresh rt u st pRaw nRaw lRaw =
     (case normalize_all rt pRaw nRaw lRaw of
        Inl e \<Rightarrow> (st, Inl e)
      | Inr cols \<Rightarrow>
          (case render_all rt u (assemble st cols) of
             Inl e \<Rightarrow> (assemble st cols, Inl e)
           | Inr pg \<Rightarrow>
               (case snd (reselect rt (assemble st cols)) of
                  Inl e \<Rightarrow> (fst (reselect rt (assemble st cols)), Inl e)
                | Inr d \<Rightarrow> (fst (reselect rt (assemble st cols)), Inr (pg, d)))))"

section \<open>Example inputs\<close>

text \<open>The largest power of two a binary64 value can be: \<^verbatim>\<open>8.98846567431158e+307\<close>.\<close>

definition huge :: rat where
  "huge = 2 ^ 1023"

text \<open>\<^verbatim>\<open>{"ticker":"A","close":8.98846567431158e+307,"prev_close":-8.98846567431158e+307}\<close>\<close>

definition overflow_row :: json where
  "overflow_row = JObj [(''ticker'', JStr ''A''), (''close'', JNum (Fin huge)),
                        (''prev_close'', JNum (Fin (- huge)))]"

text \<open>\<^verbatim>\<open>{"ticker":"ABC","close":96,"prev_close":64,"volume":500}\<close>\<close>

definition half_row :: json where
  "half_row = JObj [(''ticker'', JStr ''ABC''), (''close'', JNum (Fin 96)),
                    (''prev_close'', JNum (Fin 64)), (''volume'', JNum (Fin 500))]"

text \<open>\<^verbatim>\<open>{"ticker":"A","close":"n/a"}\<close>\<close>

definition gap_row :: json where
  "gap_row = JObj [(''ticker'', JStr ''A''), (''close'', JStr ''n/a'')]"

text \<open>\<^verbatim>\<open>{"ticker":"A","Last":null,"volume":""}\<close>\<close>

definition blank_row :: json where
  "blank_row = JObj [(''ticker'', JStr ''A''), (''Last'', JNull), (''volume'', JStr [])]"

text \<open>A normalised row with the ticker \<^verbatim>\<open>A\<close>, the last price 100 and a given series.\<close>

definition row_with_series :: "json list option \<Rightarrow> price_row" where
  "row_with_series xs =
     \<lparr> ticker = Some (JStr ''A''), company = JStr [], sector = JStr [],
       last_price = Some 100, prev = None, chg = None, pctChg = None, volume = None,
       timestamp = JStr [], regime = JStr [], macro_headline = JStr [],
       series = xs, raw = JObj [(''ticker'', JStr ''A''), (''close'', JNum (Fin 100))] \<rparr>"

text \<open>
  The form \<^verbatim>\<open>{team:"", side:"BUY", ticker:"xyz", qty:"10", type:"LIMIT", limit:"42.5"}\<close>,
  the same form with a blank quantity, and with the quantity \<^verbatim>\<open>abc\<close>.
\<close>

definition limit_form :: "string \<Rightarrow> form" where
  "limit_form q =
     \<lparr> fTeam = [], fSide = ''BUY'', fTicker = ''xyz'', fQty = q, fType = ''LIMIT'',
       fLimit = ''42.5'', fNotes = [] \<rparr>"

text \<open>A normalised row with a ticker and a company name, both strings, and nothing else.\<close>

definition named_row :: "string \<Rightarrow> string \<Rightarrow> price_row" where
  "named_row t c =
     \<lparr> ticker = Some (JStr t), company = JStr c, sector = JStr [],
       last_price = None, prev = None, chg = None, pctChg = None, volume = None,
       timestamp = JStr [], regime = JStr [], macro_headline = JStr [],
       series = None, raw = JObj [(''ticker'', JStr t), (''company_name'', JStr c)] \<rparr>"

text \<open>The state at the start, the page inputs left empty, and the empty payload \<^verbatim>\<open>{}\<close>.\<close>

definition initial_state :: state where
  "initial_state = \<lparr> prices = [], news = [], leaderboard = [], sectors = [], selected = None,
                     selected_at = None \<rparr>"

definition no_inputs :: ui where
  "no_inputs = \<lparr> searchInput = [], sectorFilter = [] \<rparr>"

definition empty_payload :: json where
  "empty_payload = JObj []"

text \<open>\<^verbatim>\<open>[{"ticker":"A","company_name":{"toString":1}}]\<close>\<close>

definition unprintable_prices :: json where
  "unprintable_prices =
     JArr [JObj [(''ticker'', JStr ''A''),
                 (''company_name'', JObj [(''toString'', JNum (Fin 1))])]]"

text \<open>
  \<^verbatim>\<open>[{"ticker":"B","company_name":"Bee"},{"ticker":"A","company_name":"Ay"}]\<close> and
  \<^verbatim>\<open>[null]\<close>
\<close>

definition two_prices :: json where
  "two_prices = JArr [JObj [(''ticker'', JStr ''B''), (''company_name'', JStr ''Bee'')],
                      JObj [(''ticker'', JStr ''A''), (''company_name'', JStr ''Ay'')]]"

definition null_prices :: json where
  "null_prices = JArr [JNull]"

text \<open>
  The state after a refresh that brought the one row \<^verbatim>\<open>{"ticker":"Z","company_name":"Zed"}\<close>,
  which was selected.
\<close>

definition stale_state :: state where
  "stale_state =
     \<lparr> prices = [named_row ''Z'' ''Zed''], news = [], leaderboard = [], sectors = [],
       selected = Some (named_row ''Z'' ''Zed''), selected_at = Some 0 \<rparr>"

text \<open>\<^verbatim>\<open>[{"ticker":"Z","company_name":"Zed"}]\<close>\<close>

definition z_prices :: json where
  "z_prices = JArr [JObj [(''ticker'', JStr ''Z''), (''company_name'', JStr ''Zed'')]]"


section \<open>Facts about the arithmetic\<close>

text \<open>
  What the proofs and the examples need of the rounding: powers of two, the exponent, and
  that a value with at most 53 significant bits, an integer below \<open>2 ^ 53\<close> among them, is
  kept as it is.
\<close>

lemma pow2_powi: "pow2 e = 2 powi e"
  by (simp add: pow2_def power_int_def inverse_eq_divide power_one_over)

lemma pow2_pos [simp]: "0 < pow2 e"
  by (simp add: pow2_powi)

lemma pow2_nz [simp]: "pow2 e \<noteq> 0"
  using pow2_pos[of e] by linarith

lemma pow2_add: "pow2 (a + b) = pow2 a * pow2 b"
  by (simp add: pow2_powi power_int_add)

lemma pow2_mono: "a \<le> b \<Longrightarrow> pow2 a \<le> pow2 b"
  by (simp add: pow2_powi power_int_increasing)

lemma pow2_less_iff: "pow2 a < pow2 b \<longleftrightarrow> a < b"
  by (metis pow2_mono pow2_powi linorder_not_less power_int_strict_increasing one_less_numeral_iff semiring_norm(76))

lemma pow2_nat: "pow2 (int n) = 2 ^ n"
  by (simp add: pow2_def)

lemma pow2_diff_nat: "pow2 (int m - int n) = 2 ^ m / 2 ^ n"
  by (simp add: pow2_powi power_int_diff)

lemma ratio_bounds:
  fixes P D :: nat
  assumes "2 ^ (fp - 1) \<le> P" "P < 2 ^ fp" "2 ^ (fd - 1) \<le> D" "D < 2 ^ fd" "1 \<le> fp" "1 \<le> fd" "0 < D"
  shows "pow2 (int fp - int fd - 1) \<le> of_nat P / of_nat D" "(of_nat P / of_nat D :: rat) < pow2 (int fp - int fd + 1)"
proof -
  have P: "(2::rat) ^ (fp - 1) \<le> of_nat P" "(of_nat P :: rat) < 2 ^ fp"
    using assms(1,2) by (metis of_nat_le_iff of_nat_numeral of_nat_power, metis of_nat_less_iff of_nat_numeral of_nat_power)
  have D: "(2::rat) ^ (fd - 1) \<le> of_nat D" "(of_nat D :: rat) < 2 ^ fd"
    using assms(3,4) by (metis of_nat_le_iff of_nat_numeral of_nat_power, metis of_nat_less_iff of_nat_numeral of_nat_power)
  have D0: "(0::rat) < of_nat D" using assms(7) by simp
  have e1: "pow2 (int fp - int fd - 1) = 2 ^ (fp - 1) / 2 ^ fd"
    using assms(5) pow2_diff_nat[of "fp - 1" fd] by (simp add: of_nat_diff algebra_simps)
  have e2: "pow2 (int fp - int fd + 1) = 2 ^ fp / 2 ^ (fd - 1)"
    using assms(6) pow2_diff_nat[of fp "fd - 1"] by (simp add: of_nat_diff algebra_simps)
  show "pow2 (int fp - int fd - 1) \<le> of_nat P / of_nat D"
    unfolding e1 using P D D0 by (intro frac_le) auto
  show "(of_nat P / of_nat D :: rat) < pow2 (int fp - int fd + 1)"
    unfolding e2 using P D D0 by (intro frac_less) auto
qed

lemma ilog2_bounds:
  assumes "0 < a"
  shows "pow2 (ilog2 a) \<le> a \<and> a < pow2 (ilog2 a + 1)"
proof -
  obtain p d where pd: "quotient_of a = (p, d)" by (cases "quotient_of a")
  have d: "0 < d" using pd by (rule quotient_of_denom_pos)
  have a: "a = of_int p / of_int d" using pd by (rule quotient_of_div)
  have p: "0 < p" using assms a d by (simp add: zero_less_divide_iff)
  define P where "P = nat p"
  define D where "D = nat d"
  have aPD: "a = of_nat P / of_nat D" using a p d by (simp add: P_def D_def)
  have P0: "0 < P" and D0: "0 < D" using p d by (simp_all add: P_def D_def)
  define fp where "fp = floorlog 2 P"
  define fd where "fd = floorlog 2 D"
  have bp: "2 ^ (fp - 1) \<le> P" "P < 2 ^ fp" using floorlog_bounds[of P 2] P0 by (simp_all add: fp_def)
  have bd: "2 ^ (fd - 1) \<le> D" "D < 2 ^ fd" using floorlog_bounds[of D 2] D0 by (simp_all add: fd_def)
  have fp1: "1 \<le> fp" using bp P0 by (cases fp) auto
  have fd1: "1 \<le> fd" using bd D0 by (cases fd) auto
  define e0 where "e0 = int fp - int fd"
  have lo: "pow2 (e0 - 1) \<le> a" and hi: "a < pow2 (e0 + 1)"
    using ratio_bounds[OF bp bd fp1 fd1 D0] by (simp_all add: e0_def aPD)
  have il: "ilog2 a = (if pow2 e0 \<le> a then e0 else e0 - 1)"
    by (simp add: ilog2_def pd e0_def fp_def fd_def P_def D_def)
  show ?thesis using lo hi by (auto simp: il)
qed

lemma ilog2_less: "0 < a \<Longrightarrow> a < pow2 k \<Longrightarrow> ilog2 a < k"
  using ilog2_bounds[of a] pow2_less_iff[of "ilog2 a" k] by linarith

lemma ilog2_ge: "0 < a \<Longrightarrow> pow2 k \<le> a \<Longrightarrow> k \<le> ilog2 a"
  using ilog2_bounds[of a] pow2_less_iff[of k "ilog2 a + 1"] by linarith

lemma round_half_even_int [simp]: "round_half_even (of_int n) = n"
  by (simp add: round_half_even_def)

lemma nearest64_exact:
  assumes "\<bar>m\<bar> < 2 ^ 53" "- 1074 \<le> e"
  shows "nearest64 (of_int m * pow2 e) = of_int m * pow2 e"
proof (cases "m = 0")
  case True
  then show ?thesis by (simp add: nearest64_def)
next
  case False
  define q where "q = of_int m * pow2 e"
  define a where "a = \<bar>q\<bar>"
  have a: "a = of_int \<bar>m\<bar> * pow2 e" by (simp add: a_def q_def abs_mult abs_of_pos)
  have a0: "0 < a" using False by (simp add: a)
  have "a < 2 ^ 53 * pow2 e"
    unfolding a using assms(1) by (simp add: mult_strict_right_mono flip: of_int_less_iff[where 'a=rat])
  then have "a < pow2 (53 + e)" using pow2_add[of 53 e] pow2_nat[of 53] by simp
  then have il: "ilog2 a < 53 + e" using a0 by (rule ilog2_less[rotated])
  define E where "E = max (ilog2 a) (- 1022)"
  have E: "E - 52 \<le> e" using il assms(2) by (simp add: E_def)
  define k where "k = nat (e - (E - 52))"
  have ik: "e = int k + (E - 52)" using E by (simp add: k_def)
  have pk: "pow2 e = 2 ^ k * pow2 (E - 52)"
    by (subst ik) (simp only: pow2_add pow2_nat)
  have nz: "pow2 (E - 52) \<noteq> 0" using pow2_pos[of "E - 52"] by linarith
  have quot: "a / pow2 (E - 52) = of_int (\<bar>m\<bar> * 2 ^ k)"
    using nz by (simp add: a pk)
  have r: "of_int (round_half_even (a / pow2 (E - 52))) * pow2 (E - 52) = a"
    unfolding quot round_half_even_int by (simp add: a pk)
  have q0: "q \<noteq> 0" using False by (simp add: q_def)
  have "nearest64 q = (if 0 < q then a else - a)"
    using q0 r by (simp add: nearest64_def Let_def E_def a_def[symmetric])
  then show ?thesis by (auto simp: a_def q_def[symmetric])
qed

lemma below_max_bound: "\<bar>q\<bar> < 2 ^ 1023 \<Longrightarrow> \<bar>q\<bar> < max_bound"
proof -
  have "(2::rat) ^ 1024 = 2 * 2 ^ 1023" by simp
  moreover have "(2::rat) ^ 970 \<le> 2 ^ 1023" by (rule power_increasing) simp_all
  ultimately have "(2::rat) ^ 1023 \<le> max_bound" unfolding max_bound_def by linarith
  then show "\<bar>q\<bar> < 2 ^ 1023 \<Longrightarrow> \<bar>q\<bar> < max_bound" by linarith
qed

lemma round64_int:
  assumes "q = of_int \<lfloor>q\<rfloor>" "\<bar>q\<bar> < 2 ^ 53"
  shows "round64 q = Fin q"
proof -
  have "(of_int \<bar>\<lfloor>q\<rfloor>\<bar> :: rat) = \<bar>q\<bar>" using assms(1) by simp
  then have "(of_int \<bar>\<lfloor>q\<rfloor>\<bar> :: rat) < of_int (2 ^ 53)" using assms(2) by simp
  then have m: "\<bar>\<lfloor>q\<rfloor>\<bar> < 2 ^ 53" by (simp only: of_int_less_iff)
  have "nearest64 (of_int \<lfloor>q\<rfloor> * pow2 0) = of_int \<lfloor>q\<rfloor> * pow2 0"
    by (rule nearest64_exact[OF m]) simp
  then have n: "nearest64 q = q" using assms(1) by (simp add: pow2_def)
  have "(2::rat) ^ 53 \<le> 2 ^ 1023" by (rule power_increasing) simp_all
  then have "\<bar>q\<bar> < max_bound" using assms(2) below_max_bound[of q] by linarith
  then show ?thesis by (simp add: round64_def n)
qed

lemma round64_dyadic:
  assumes "\<bar>m\<bar> < 2 ^ 53" "k \<le> 1074"
  shows "round64 (of_int m / 2 ^ k) = Fin (of_int m / 2 ^ k)"
proof -
  define q :: rat where "q = of_int m / 2 ^ k"
  have q: "q = of_int m * pow2 (- int k)"
    by (simp add: q_def pow2_def)
  have n: "nearest64 q = q"
    unfolding q by (rule nearest64_exact[OF assms(1)]) (use assms(2) in simp)
  have "\<bar>q\<bar> = \<bar>of_int m\<bar> / 2 ^ k" by (simp add: q_def)
  also have "\<dots> \<le> \<bar>of_int m\<bar> / 1" by (rule divide_left_mono) simp_all
  finally have "\<bar>q\<bar> \<le> \<bar>of_int m\<bar>" by simp
  moreover have "\<bar>of_int m :: rat\<bar> < 2 ^ 53"
    using assms(1) by (metis of_int_abs of_int_less_iff of_int_numeral of_int_power)
  moreover have "(2::rat) ^ 53 \<le> 2 ^ 1023" by (rule power_increasing) simp_all
  ultimately have "\<bar>q\<bar> < max_bound" using below_max_bound[of q] by linarith
  then show ?thesis by (simp add: round64_def n q_def[symmetric])
qed

section \<open>Properties of the normalisation\<close>

lemmas row_eval = normalizePriceRow_def last_raw_def prev_raw_def volume_raw_def prop_of_def
  Number_def nullish_def chg_of_def pctChg_of_def js_isFinite_def keep_finite_def
  finite_or_null_def raw_number_def isArray_def array_items_def

text \<open>White space is dropped one character at a time; an ASCII character is one byte.\<close>

lemma strip_Nil [simp]: "strip ws [] = []"
proof -
  have "find (\<lambda>w. w \<noteq> [] \<and> take (length w) [] = w) ws = None"
    by (auto simp: find_None_iff)
  then show ?thesis by (subst strip.simps) simp
qed

lemma strip_ascii:
  assumes tbl: "\<forall>w \<in> set ws. w \<noteq> [] \<and> (length w = 1 \<or> 128 \<le> code_unit (hd w))
                  \<and> (length w = 1 \<longrightarrow> is_space (hd w))"
    and sp: "\<forall>c. is_space c \<longrightarrow> [c] \<in> set ws"
    and c: "code_unit c < 128"
  shows "strip ws (c # cs) = (if is_space c then strip ws cs else c # cs)"
proof -
  let ?P = "\<lambda>w. w \<noteq> [] \<and> take (length w) (c # cs) = w"
  have one: "w = [c] \<and> is_space c" if "w \<in> set ws" "?P w" for w
  proof -
    have "hd w = c" using that(2) by (cases w) auto
    then have "length w = 1" using tbl that(1) c by fastforce
    then show ?thesis using tbl that(1) \<open>hd w = c\<close> by (cases w) auto
  qed
  show ?thesis
  proof (cases "find ?P ws")
    case None
    then have "\<not> is_space c" using sp by (auto simp: find_None_iff)
    then show ?thesis using None by (subst strip.simps) simp
  next
    case (Some w)
    then have "w \<in> set ws" "?P w" by (auto simp: find_Some_iff)
    then have "w = [c]" "is_space c" using one by blast+
    then show ?thesis using Some by (subst strip.simps) simp
  qed
qed

lemma white_space_table:
  "\<forall>w \<in> set white_space. w \<noteq> [] \<and> (length w = 1 \<or> 128 \<le> code_unit (hd w))
                  \<and> (length w = 1 \<longrightarrow> is_space (hd w))"
  "\<forall>w \<in> set (map rev white_space). w \<noteq> [] \<and> (length w = 1 \<or> 128 \<le> code_unit (hd w))
                  \<and> (length w = 1 \<longrightarrow> is_space (hd w))"
  "\<forall>c. is_space c \<longrightarrow> [c] \<in> set white_space"
  "\<forall>c. is_space c \<longrightarrow> [c] \<in> set (map rev white_space)"
  by (simp_all add: white_space_def code_unit_def is_space_def)

lemma strip_white_space:
  assumes "code_unit c < 128"
  shows "strip white_space (c # cs) = (if is_space c then strip white_space cs else c # cs)"
    and "strip (map rev white_space) (c # cs)
           = (if is_space c then strip (map rev white_space) cs else c # cs)"
  using strip_ascii[OF white_space_table(1,3) assms] strip_ascii[OF white_space_table(2,4) assms]
  by blast+

lemma trim_Nil [simp]: "trim [] = []"
  by (simp add: trim_def)

lemmas trim_eval = trim_def strip_white_space is_space_def code_unit_def

text \<open>
  \<^verbatim>\<open>U+00A0\<close> alone is blank; a byte order mark and a line separator around \<^verbatim>\<open>7\<close> go; the
  letter \<^verbatim>\<open>U+00E0\<close>, whose second byte is that of \<^verbatim>\<open>U+00A0\<close>, stays.
\<close>

lemma trim_nbsp: "trim [CHR 0xC2, CHR 0xA0] = []" "trim ([CHR 0xEF, CHR 0xBB, CHR 0xBF] @ ''7'' @ [CHR 0xE2, CHR 0x80, CHR 0xA8]) = ''7''"
  "trim [CHR 0xC3, CHR 0xA0] = [CHR 0xC3, CHR 0xA0]"
  by (simp_all add: trim_def strip.simps[of _ "_ # _"] white_space_def)

lemmas str_eval = StringToNumber_def trim_eval radix_literal_def unsigned_literal_def
  exponent_part_def is_digit_def digit_val_def digits_val_def code_unit_def

lemma round64_not_NaN [simp]: "round64 q \<noteq> NaN"
  by (simp add: round64_def)

lemma huge_pos: "0 < huge"
  by (simp add: huge_def)

lemma jsub_huge: "jsub (Fin huge) (Fin (- huge)) = PInf"
  by (simp add: jsub_def jadd_def jneg_def round64_def max_bound_def huge_def)

lemma StringToNumber_na: "StringToNumber ''n/a'' = NaN"
  by (simp add: str_eval)

lemma StringToNumber_empty: "StringToNumber [] = Fin 0"
  by (simp add: str_eval)

subsection \<open>Printing and coercion never throw on a printable value\<close>

lemma printable_ToString:
  "printable j \<Longrightarrow> \<exists>s. ToString rt j = Inr s"
  "list_all printable xs \<Longrightarrow> \<exists>s. join_elements rt xs = Inr s"
proof (induction rt j and rt xs rule: ToString_join_elements.induct)
  case (8 rt x xs)
  obtain s where s: "(if x = JNull then Inr [] else ToString rt x) = Inr s"
    using 8(1,3) by (cases "x = JNull") auto
  show ?case
  proof (cases "xs = []")
    case True
    then show ?thesis using s by simp
  next
    case False
    then obtain t where "join_elements rt xs = Inr t" using 8(2)[OF s] 8(3) by auto
    then show ?thesis using s False by simp
  qed
qed auto

lemma printable_Number:
  "(\<And>j. v = Some j \<Longrightarrow> printable j) \<Longrightarrow> \<exists>n. Number rt v = Inr n"
proof (cases v)
  case None
  then show ?thesis by (simp add: Number_def)
next
  case (Some j)
  assume "\<And>j. v = Some j \<Longrightarrow> printable j"
  then have "printable j" using Some by simp
  then obtain s where "ToString rt j = Inr s" using printable_ToString(1) by blast
  then show ?thesis using Some by (cases j) (simp_all add: Number_def)
qed

lemma printable_prop: "printable r \<Longrightarrow> prop_of r k = Some v \<Longrightarrow> printable v"
  by (cases r) (auto simp: prop_of_def list_all_iff dest!: map_of_SomeD)

lemma coalesce_cases: "coalesce vs = None \<or> coalesce vs = Some JNull \<or> coalesce vs \<in> set vs"
  by (induction vs rule: coalesce.induct) (auto simp: nullish_def)

lemma coalesce_props:
  assumes "printable r" and "\<forall>v \<in> set vs. \<exists>k. v = prop_of r k" and "coalesce vs = Some j"
  shows "printable j"
proof -
  consider "coalesce vs = Some JNull" | "coalesce vs \<in> set vs"
    using coalesce_cases[of vs] assms(3) by auto
  then show ?thesis
  proof cases
    case 1
    then show ?thesis using assms(3) by simp
  next
    case 2
    then obtain k where "prop_of r k = Some j" using assms(2,3) by metis
    then show ?thesis using assms(1) printable_prop by blast
  qed
qed

lemma Number_props:
  assumes "printable r" and "\<forall>v \<in> set vs. \<exists>k. v = prop_of r k"
  shows "\<exists>n. Number rt (coalesce vs) = Inr n"
  by (rule printable_Number) (use assms coalesce_props in blast)

lemma Number_prop:
  assumes "printable r"
  shows "\<exists>n. Number rt (prop_of r k) = Inr n"
  by (rule printable_Number) (use assms printable_prop in blast)

lemma raw_number_total:
  assumes "printable r"
  shows "\<exists>c. raw_number rt (prop_of r k) = Inr c"
  using Number_prop[OF assms, of rt k] by (auto simp: raw_number_def)

lemma raw_number_absent [simp]: "raw_number rt None = Inr None"
  by (simp add: raw_number_def Number_def js_isFinite_def)

lemma Number_absent [simp]: "Number rt None = Inr NaN"
  by (simp add: Number_def)

lemma chg_of_not_NaN: "chg_of rt r l p = Inr (Some cn) \<Longrightarrow> cn \<noteq> NaN"
  by (auto simp: chg_of_def raw_number_def js_isFinite_def jsub_def jadd_def jneg_def
      split: if_splits sum.splits jsnum.splits)

lemma pct_of_infinite:
  "cn = PInf \<or> cn = NInf \<Longrightarrow> b \<noteq> 0 \<Longrightarrow>
     keep_finite (Some (jmul (jdiv cn (Fin b)) (Fin 100))) = None"
  by (auto simp: keep_finite_def finite_or_null_def jdiv_def jmul_def positive_def)

subsection \<open>Change and percent change\<close>

text \<open>
  C2, as amended. Whenever \<^verbatim>\<open>normalizePriceRow\<close> returns a row and the resolved last price
  and previous close coerce to finite numbers \<open>a\<close> and \<open>b\<close>, the row keeps both, its change
  is the binary64 difference \<open>a - b\<close> when that difference is finite and \<^verbatim>\<open>null\<close> when it
  overflows, and when also \<open>b \<noteq> 0\<close> its percent change is \<open>(a - b) / b * 100\<close> in binary64
  arithmetic when that is finite and \<^verbatim>\<open>null\<close> when it is not.
\<close>

theorem normalizePriceRow_change:
  assumes "normalizePriceRow rt r = Inr row"
    and "Number rt (last_raw r) = Inr (Fin a)"
    and "Number rt (prev_raw r) = Inr (Fin b)"
  shows "last_price row = Some a \<and> prev row = Some b
       \<and> chg row = finite_or_null (jsub (Fin a) (Fin b))
       \<and> (b \<noteq> 0 \<longrightarrow>
            pctChg row = finite_or_null (jmul (jdiv (jsub (Fin a) (Fin b)) (Fin b)) (Fin 100)))"
  using assms
  by (auto simp: normalizePriceRow_def chg_of_def pctChg_of_def js_isFinite_def keep_finite_def
      finite_or_null_def split: if_splits sum.splits)

text \<open>
  The theorem at \<^verbatim>\<open>{"ticker":"ABC","close":96,"prev_close":64,"volume":500}\<close>: the change is
  32 and the percent change 50.
\<close>

theorem normalizePriceRow_change_witness:
  "\<forall>rt. \<exists>row. normalizePriceRow rt half_row = Inr row
      \<and> last_price row = Some 96 \<and> prev row = Some 64 \<and> chg row = Some 32 \<and> pctChg row = Some 50"
proof
  fix rt
  have l: "Number rt (last_raw half_row) = Inr (Fin 96)"
    by (simp add: half_row_def row_eval)
  have p: "Number rt (prev_raw half_row) = Inr (Fin 64)"
    by (simp add: half_row_def row_eval)
  obtain row where row: "normalizePriceRow rt half_row = Inr row"
    by (simp add: half_row_def row_eval)
  have s: "jsub (Fin 96) (Fin 64) = Fin 32"
    by (simp add: jsub_def jadd_def jneg_def round64_int)
  have d: "jmul (jdiv (Fin 32) (Fin 64)) (Fin 100) = Fin 50"
    using round64_dyadic[of 1 1] by (simp add: jdiv_def jmul_def round64_int)
  from normalizePriceRow_change[OF row l p]
  show "\<exists>row. normalizePriceRow rt half_row = Inr row
      \<and> last_price row = Some 96 \<and> prev row = Some 64 \<and> chg row = Some 32 \<and> pctChg row = Some 50"
    using row by (simp add: s d finite_or_null_def)
qed

text \<open>
  C2 as stated fails where the difference overflows. With last price \<open>2 ^ 1023\<close> and previous
  close \<open>- 2 ^ 1023\<close>, both finite, \<open>last - prev\<close> is \<^verbatim>\<open>Infinity\<close>; the row's change and
  percent change are \<^verbatim>\<open>null\<close>, not that number.
\<close>

theorem normalizePriceRow_change_counterexample:
  "\<forall>rt. Number rt (last_raw overflow_row) = Inr (Fin huge)
      \<and> Number rt (prev_raw overflow_row) = Inr (Fin (- huge))
      \<and> jsub (Fin huge) (Fin (- huge)) = PInf
      \<and> (\<exists>row. normalizePriceRow rt overflow_row = Inr row \<and> chg row = None \<and> pctChg row = None)"
  using huge_pos
  by (simp add: overflow_row_def row_eval jsub_huge jdiv_def jmul_def positive_def)

subsection \<open>One row for every record that can be read\<close>

text \<open>
  C3, as amended. For every raw record other than \<^verbatim>\<open>null\<close> in which no object has an own
  property named \<^verbatim>\<open>toString\<close>, \<^verbatim>\<open>normalizePriceRow\<close> returns one row and does not throw.
  The last price, the previous close and the volume of the row are \<^verbatim>\<open>null\<close> when every alias
  of the field is absent, and when the resolved value is a string that \<^verbatim>\<open>Number\<close> cannot
  read (text that is neither blank nor a numeric literal); each is the number itself when the
  resolved value is a finite number. The change is \<^verbatim>\<open>null\<close> when the last price or the
  previous close is \<^verbatim>\<open>null\<close> and the record has no \<^verbatim>\<open>change\<close>; the percent change is
  \<^verbatim>\<open>null\<close> when the change is \<^verbatim>\<open>null\<close> or the previous close is \<^verbatim>\<open>null\<close> or 0, and the
  record has no \<^verbatim>\<open>pct_change\<close>.
\<close>

theorem normalizePriceRow_total:
  assumes "r \<noteq> JNull" and "printable r"
  shows "\<exists>row. normalizePriceRow rt r = Inr row
      \<and> (last_raw r = None \<longrightarrow> last_price row = None)
      \<and> (prev_raw r = None \<longrightarrow> prev row = None)
      \<and> (volume_raw r = None \<longrightarrow> volume row = None)
      \<and> (\<forall>s. last_raw r = Some (JStr s) \<and> StringToNumber s = NaN \<longrightarrow> last_price row = None)
      \<and> (\<forall>s. prev_raw r = Some (JStr s) \<and> StringToNumber s = NaN \<longrightarrow> prev row = None)
      \<and> (\<forall>s. volume_raw r = Some (JStr s) \<and> StringToNumber s = NaN \<longrightarrow> volume row = None)
      \<and> (\<forall>q. last_raw r = Some (JNum (Fin q)) \<longrightarrow> last_price row = Some q)
      \<and> (\<forall>q. prev_raw r = Some (JNum (Fin q)) \<longrightarrow> prev row = Some q)
      \<and> (\<forall>q. volume_raw r = Some (JNum (Fin q)) \<longrightarrow> volume row = Some q)
      \<and> ((last_price row = None \<or> prev row = None) \<and> prop_of r ''change'' = None
            \<longrightarrow> chg row = None)
      \<and> ((chg row = None \<or> prev row = None \<or> prev row = Some 0) \<and> prop_of r ''pct_change'' = None
            \<longrightarrow> pctChg row = None)"
proof -
  have "\<exists>n. Number rt (last_raw r) = Inr n"
    unfolding last_raw_def by (rule Number_props[OF assms(2)]) auto
  then obtain l where l: "Number rt (last_raw r) = Inr l" by blast
  have "\<exists>n. Number rt (prev_raw r) = Inr n"
    unfolding prev_raw_def by (rule Number_props[OF assms(2)]) auto
  then obtain p where p: "Number rt (prev_raw r) = Inr p" by blast
  have "\<exists>n. Number rt (volume_raw r) = Inr n"
    unfolding volume_raw_def by (rule Number_props[OF assms(2)]) auto
  then obtain v where v: "Number rt (volume_raw r) = Inr v" by blast
  have "\<exists>c. chg_of rt r l p = Inr c"
    using raw_number_total[OF assms(2), of rt "''change''"] by (auto simp: chg_of_def)
  then obtain c where c: "chg_of rt r l p = Inr c" by blast
  have "\<exists>pc. pctChg_of rt r c p = Inr pc"
    using raw_number_total[OF assms(2), of rt "''pct_change''"]
    by (auto simp: pctChg_of_def split: option.splits)
  then obtain pc where pc: "pctChg_of rt r c p = Inr pc" by blast
  have "\<exists>row. normalizePriceRow rt r = Inr row"
    using assms(1) l p v c pc by (simp add: normalizePriceRow_def)
  then obtain row where row: "normalizePriceRow rt r = Inr row" by blast
  have f: "last_price row = finite_or_null l" "prev row = finite_or_null p"
    "volume row = finite_or_null v" "chg row = keep_finite c" "pctChg row = keep_finite pc"
    using row assms(1) l p v c pc by (auto simp: normalizePriceRow_def)
  have a1: "last_raw r = None \<longrightarrow> last_price row = None"
    using l f(1) by (auto simp: finite_or_null_def)
  have a2: "prev_raw r = None \<longrightarrow> prev row = None"
    using p f(2) by (auto simp: finite_or_null_def)
  have a3: "volume_raw r = None \<longrightarrow> volume row = None"
    using v f(3) by (auto simp: finite_or_null_def)
  have b1: "\<forall>s. last_raw r = Some (JStr s) \<and> StringToNumber s = NaN \<longrightarrow> last_price row = None"
    using l f(1) by (auto simp: finite_or_null_def Number_def)
  have b2: "\<forall>s. prev_raw r = Some (JStr s) \<and> StringToNumber s = NaN \<longrightarrow> prev row = None"
    using p f(2) by (auto simp: finite_or_null_def Number_def)
  have b3: "\<forall>s. volume_raw r = Some (JStr s) \<and> StringToNumber s = NaN \<longrightarrow> volume row = None"
    using v f(3) by (auto simp: finite_or_null_def Number_def)
  have c1: "\<forall>q. last_raw r = Some (JNum (Fin q)) \<longrightarrow> last_price row = Some q"
    using l f(1) by (auto simp: finite_or_null_def Number_def)
  have c2: "\<forall>q. prev_raw r = Some (JNum (Fin q)) \<longrightarrow> prev row = Some q"
    using p f(2) by (auto simp: finite_or_null_def Number_def)
  have c3: "\<forall>q. volume_raw r = Some (JNum (Fin q)) \<longrightarrow> volume row = Some q"
    using v f(3) by (auto simp: finite_or_null_def Number_def)
  have a4: "(last_price row = None \<or> prev row = None) \<and> prop_of r ''change'' = None
            \<longrightarrow> chg row = None"
    using c f(1,2,4)
    by (auto simp: chg_of_def finite_or_null_def keep_finite_def js_isFinite_def
        split: jsnum.splits if_splits)
  have a5: "(chg row = None \<or> prev row = None \<or> prev row = Some 0) \<and> prop_of r ''pct_change'' = None
            \<longrightarrow> pctChg row = None"
  proof
    assume h: "(chg row = None \<or> prev row = None \<or> prev row = Some 0)
                 \<and> prop_of r ''pct_change'' = None"
    show "pctChg row = None"
    proof (cases "\<exists>cn. c = Some cn \<and> js_isFinite p \<and> p \<noteq> Fin 0")
      case True
      then obtain cn b where cn: "c = Some cn" and b: "p = Fin b" "b \<noteq> 0"
        by (auto simp: js_isFinite_def split: jsnum.splits)
      have "chg row = None" using h f(2) b by (auto simp: finite_or_null_def)
      then have "cn = PInf \<or> cn = NInf"
        using f(4) cn chg_of_not_NaN[of rt r l p cn] c
        by (cases cn) (auto simp: keep_finite_def finite_or_null_def)
      moreover have "pc = Some (jmul (jdiv cn p) (Fin 100))"
        using pc True cn by (simp add: pctChg_of_def)
      ultimately show ?thesis using f(5) b pct_of_infinite[of cn b] by simp
    next
      case False
      then have "pc = None"
        using pc h by (auto simp: pctChg_of_def split: option.splits if_splits)
      then show ?thesis using f(5) by (simp add: keep_finite_def)
    qed
  qed
  show ?thesis
    by (rule exI[of _ row]) (intro conjI row a1 a2 a3 b1 b2 b3 c1 c2 c3 a4 a5)
qed

text \<open>
  The theorem at \<^verbatim>\<open>{"ticker":"A","close":"n/a"}\<close>: one row, every numeric field
  \<^verbatim>\<open>null\<close>.
\<close>

theorem normalizePriceRow_total_witness:
  "\<forall>rt. gap_row \<noteq> JNull \<and> printable gap_row
     \<and> last_raw gap_row = Some (JStr ''n/a'') \<and> StringToNumber ''n/a'' = NaN
     \<and> (\<exists>row. normalizePriceRow rt gap_row = Inr row \<and> last_price row = None \<and> prev row = None
           \<and> volume row = None \<and> chg row = None \<and> pctChg row = None)"
proof
  fix rt
  have n: "gap_row \<noteq> JNull" and pr: "printable gap_row"
    by (simp_all add: gap_row_def has_key_def)
  have raws: "last_raw gap_row = Some (JStr ''n/a'')" "prev_raw gap_row = None"
    "volume_raw gap_row = None" "prop_of gap_row ''change'' = None"
    "prop_of gap_row ''pct_change'' = None"
    by (simp_all add: gap_row_def last_raw_def prev_raw_def volume_raw_def prop_of_def nullish_def)
  from normalizePriceRow_total[OF n pr, of rt] obtain row where
    row: "normalizePriceRow rt gap_row = Inr row"
    and l: "\<forall>s. last_raw gap_row = Some (JStr s) \<and> StringToNumber s = NaN \<longrightarrow> last_price row = None"
    and rest: "prev_raw gap_row = None \<longrightarrow> prev row = None"
      "volume_raw gap_row = None \<longrightarrow> volume row = None"
      "(last_price row = None \<or> prev row = None) \<and> prop_of gap_row ''change'' = None
            \<longrightarrow> chg row = None"
      "(chg row = None \<or> prev row = None \<or> prev row = Some 0) \<and> prop_of gap_row ''pct_change'' = None
            \<longrightarrow> pctChg row = None"
    by (elim exE conjE) (rule that)
  have "last_price row = None" using l raws(1) StringToNumber_na by blast
  then show "gap_row \<noteq> JNull \<and> printable gap_row
     \<and> last_raw gap_row = Some (JStr ''n/a'') \<and> StringToNumber ''n/a'' = NaN
     \<and> (\<exists>row. normalizePriceRow rt gap_row = Inr row \<and> last_price row = None \<and> prev row = None
           \<and> volume row = None \<and> chg row = None \<and> pctChg row = None)"
    using n pr row rest raws StringToNumber_na by auto
qed

text \<open>
  C3 as stated fails for the record \<^verbatim>\<open>null\<close>, which an array of rows can hold:
  \<^verbatim>\<open>normalizePriceRow(null)\<close> throws a TypeError at its first property read.
\<close>

theorem normalizePriceRow_total_counterexample:
  "\<forall>rt. normalizePriceRow rt JNull = Inl TypeError"
  by (simp add: normalizePriceRow_def)

text \<open>
  Not part of the amended claim: \<^verbatim>\<open>{"ticker":"A","Last":null,"volume":""}\<close> carries no
  number, and gets the last price 0 and the volume 0, since \<^verbatim>\<open>Number(null)\<close> and
  \<^verbatim>\<open>Number("")\<close> are 0 and pass the test \<^verbatim>\<open>isFinite\<close>, where the same \<^verbatim>\<open>null\<close> under an
  earlier alias, \<^verbatim>\<open>{"ticker":"A","close":null}\<close>, leaves the last price \<^verbatim>\<open>null\<close>.
\<close>

lemma normalizePriceRow_blank:
  "\<exists>row. normalizePriceRow rt blank_row = Inr row \<and> last_price row = Some 0 \<and> volume row = Some 0"
  "\<exists>row. normalizePriceRow rt (JObj [(''ticker'', JStr ''A''), (''close'', JNull)]) = Inr row
         \<and> last_price row = None"
  by (simp_all add: blank_row_def row_eval StringToNumber_empty)

section \<open>Properties of the sparkline\<close>

lemma finite_list: "list_all js_isFinite s \<Longrightarrow> \<exists>qs. s = map Fin qs"
proof (induction s)
  case Nil
  then show ?case by simp
next
  case (Cons x s)
  then obtain qs where "s = map Fin qs" by auto
  moreover obtain q where "x = Fin q" using Cons.prems by (cases x) (auto simp: js_isFinite_def)
  ultimately have "x # s = map Fin (q # qs)" by simp
  then show ?case ..
qed

lemma NaN_notin_Fin [simp]: "NaN \<notin> Fin ` A"
  by auto

lemma fold_min_Fin:
  "fold (\<lambda>x m. if jle x m then x else m) (map Fin qs) (Fin a) = Fin (fold min qs a)"
  by (induction qs arbitrary: a) (auto simp: jle_def min_def)

lemma fold_max_Fin:
  "fold (\<lambda>x m. if jle m x then x else m) (map Fin qs) (Fin a) = Fin (fold max qs a)"
  by (induction qs arbitrary: a) (auto simp: jle_def max_def)

lemma jle_Fin_PInf [simp]: "jle (Fin q) PInf" "jle NInf (Fin q)"
  by (simp_all add: jle_def)

lemma math_min_Fin: "qs \<noteq> [] \<Longrightarrow> math_min (map Fin qs) = Fin (Min (set qs))"
proof (cases qs)
  case Nil
  then show "qs \<noteq> [] \<Longrightarrow> ?thesis" by simp
next
  case (Cons q qs')
  have "math_min (map Fin qs) = Fin (fold min qs' q)"
    by (simp add: Cons math_min_def fold_min_Fin)
  then show ?thesis using Min.set_eq_fold[of q qs'] by (simp add: Cons)
qed

lemma math_max_Fin: "qs \<noteq> [] \<Longrightarrow> math_max (map Fin qs) = Fin (Max (set qs))"
proof (cases qs)
  case Nil
  then show "qs \<noteq> [] \<Longrightarrow> ?thesis" by simp
next
  case (Cons q qs')
  have "math_max (map Fin qs) = Fin (fold max qs' q)"
    by (simp add: Cons math_max_def fold_max_Fin)
  then show ?thesis using Max.set_eq_fold[of q qs'] by (simp add: Cons)
qed

lemma max_bound_pos: "0 < max_bound"
  using below_max_bound[of 0] by simp

lemma round64_zero [simp]: "round64 0 = Fin 0"
  using max_bound_pos by (simp add: round64_def nearest64_def)

lemma jsub_Fin: "jsub (Fin a) (Fin b) = round64 (a - b)"
  by (simp add: jsub_def jadd_def jneg_def)

subsection \<open>The vertical scale\<close>

text \<open>
  C7, as amended. For every non-empty series of finite numbers, the divisor \<^verbatim>\<open>span\<close> is
  \<open>max - min\<close> (the binary64 difference) when that difference is not 0, however small, and 1
  when it is 0; for a perfectly flat series it is 1.
\<close>

theorem spark_span_zero_guard:
  assumes "s \<noteq> []" and "list_all js_isFinite s"
  shows "spark_span s = (if jsub (math_max s) (math_min s) = Fin 0 then Fin 1
                         else jsub (math_max s) (math_min s))
       \<and> (math_max s = math_min s \<longrightarrow> spark_span s = Fin 1)"
proof -
  obtain qs where qs: "s = map Fin qs" using assms(2) finite_list by blast
  then have ne: "qs \<noteq> []" using assms(1) by auto
  have d: "jsub (math_max s) (math_min s) = round64 (Max (set qs) - Min (set qs))"
    by (simp add: qs math_max_Fin[OF ne] math_min_Fin[OF ne] jsub_Fin)
  show ?thesis
    unfolding spark_span_def Let_def d
    by (auto simp: qs math_max_Fin[OF ne] math_min_Fin[OF ne])
qed

text \<open>The theorem at the flat series 5, 5, 5: the span is 1.\<close>

theorem spark_span_zero_guard_witness:
  "[Fin 5, Fin 5, Fin 5] \<noteq> [] \<and> list_all js_isFinite [Fin 5, Fin 5, Fin 5]
     \<and> spark_span [Fin 5, Fin 5, Fin 5] = Fin 1"
  using spark_span_zero_guard[of "[Fin 5, Fin 5, Fin 5]"]
  by (simp add: js_isFinite_def math_max_def math_min_def jle_def jsub_Fin)

text \<open>
  C7 as stated fails for a difference between 0 and 1: the series 1, 1.5 is used as it is,
  \<open>max - min\<close> is 0.5, and \<^verbatim>\<open>span\<close> is 0.5, not 1.
\<close>

theorem spark_span_zero_guard_counterexample:
  "\<forall>rt. spark_series rt (row_with_series (Some [JNum (Fin 1), JNum (Fin (3 / 2))]))
           = Inr [Fin 1, Fin (3 / 2)]
     \<and> jsub (math_max [Fin 1, Fin (3 / 2)]) (math_min [Fin 1, Fin (3 / 2)]) = Fin (1 / 2)
     \<and> spark_span [Fin 1, Fin (3 / 2)] = Fin (1 / 2)"
  using round64_dyadic[of 1 1]
  by (simp add: spark_series_def row_with_series_def Number_def js_isFinite_def spark_span_def
      math_max_def math_min_def jle_def jsub_Fin)

subsection \<open>The chart is always drawn\<close>











section \<open>Properties of the order composer\<close>

lemma StringToNumber_blank: "trim s = [] \<Longrightarrow> StringToNumber s = Fin 0"
  by (simp add: StringToNumber_def)

lemma number_to_string_0: "number_to_string rt (Fin 0) = ''0''"
  by (simp add: number_to_string_def digits_of.simps[of 0] digit_char_def)

text \<open>A blank quantity, empty or white space only, is the quantity 0.\<close>

lemma blank_quantity:
  "trim (fQty f) = [] \<Longrightarrow> issue_lines rt f ! 3 = ''qty: 0''"
  by (simp add: issue_lines_def form_qty_def StringToNumber_blank number_to_string_0)

lemma StringToNumber_10: "StringToNumber ''10'' = Fin 10"
  by (simp add: str_eval round64_int)

lemma number_to_string_10: "number_to_string rt (Fin 10) = ''10''"
  by (simp add: number_to_string_def digits_of.simps[of 10] digits_of.simps[of "Suc 0"] digit_char_def)

lemma toUpperCase_xyz: "toUpperCase rt ''xyz'' = ''XYZ''"
  by (simp add: toUpperCase_def ascii_def code_unit_def upper_char_def)

lemma trim_simple: "trim ''xyz'' = ''xyz''" "trim ''42.5'' = ''42.5''" "trim [] = []" "trim ''  '' = []"
  by (simp_all add: trim_eval)

lemma StringToNumber_abc: "StringToNumber ''abc'' = NaN"
  by (simp add: str_eval)

text \<open>
  C8. The quantity is \<^verbatim>\<open>Number(el("fQty").value || 0)\<close>: the default 0 is applied before the
  conversion, so it replaces only the empty text, and text that is not numeric is converted to
  NaN. With \<^verbatim>\<open>abc\<close> in the quantity field the line is \<^verbatim>\<open>qty: NaN\<close>, where the claim has
  \<^verbatim>\<open>qty: 0\<close>.
\<close>

theorem issueBodyFromForm_quantity_not_numeric:
  "\<forall>rt. issue_lines rt (limit_form ''abc'') =
        [''team: team1'', ''side: BUY'', ''ticker: XYZ'', ''qty: NaN'', ''order_type: LIMIT'',
         ''limit_price: 42.5'']"
  by (simp add: issue_lines_def limit_form_def form_team_def form_qty_def trim_simple
      toUpperCase_xyz StringToNumber_abc number_to_string_def)

text \<open>The form of the specification's fourth scenario, quantity 10, and the same form with a
  quantity of two spaces.\<close>

lemma issueBodyFromForm_scenario:
  "issue_lines rt (limit_form ''10'') =
        [''team: team1'', ''side: BUY'', ''ticker: XYZ'', ''qty: 10'', ''order_type: LIMIT'',
         ''limit_price: 42.5'']"
  "issue_lines rt (limit_form ''  '') =
        [''team: team1'', ''side: BUY'', ''ticker: XYZ'', ''qty: 0'', ''order_type: LIMIT'',
         ''limit_price: 42.5'']"
  by (simp_all add: issue_lines_def limit_form_def form_team_def form_qty_def trim_simple
      toUpperCase_xyz StringToNumber_10 number_to_string_10 StringToNumber_blank number_to_string_0)

section \<open>Properties of the watchlist\<close>

subsection \<open>The sort keeps the rows\<close>

lemma run_asc_append: "run_asc lt p xs = (r, rest) \<Longrightarrow> r @ rest = xs"
  by (induction lt p xs arbitrary: r rest rule: run_asc.induct) (auto split: if_splits prod.splits)

lemma run_desc_append: "run_desc lt p xs = (r, rest) \<Longrightarrow> r @ rest = xs"
  by (induction lt p xs arbitrary: r rest rule: run_desc.induct) (auto split: if_splits prod.splits)

lemma make_run_set: "make_run lt xs = (r, rest) \<Longrightarrow> set r \<union> set rest = set xs"
  by (induction lt xs rule: make_run.induct)
    (auto split: if_splits prod.splits dest!: run_asc_append run_desc_append)

lemma set_binary_insert [simp]: "set (binary_insert lt pre x) = insert x (set pre)"
proof -
  have "set (take k pre) \<union> set (drop k pre) = set pre" for k
    by (metis append_take_drop_id set_append)
  then show ?thesis by (auto simp: binary_insert_def Let_def)
qed

lemma set_foldl_binary_insert: "set (foldl (binary_insert lt) r rest) = set r \<union> set rest"
  by (induction rest arbitrary: r) auto

lemma set_js_sort [simp]: "set (js_sort lt xs) = set xs"
proof -
  obtain r rest where m: "make_run lt xs = (r, rest)" by (cases "make_run lt xs")
  then have "set r \<union> set rest = set xs" by (rule make_run_set)
  then show ?thesis by (simp add: js_sort_def m set_foldl_binary_insert)
qed

lemma set_sort_by_ticker: "sort_by_ticker rt rs = Inr rows \<Longrightarrow> set rows = set rs"
  by (auto simp: sort_by_ticker_def split: if_splits)

subsection \<open>Which rows are shown\<close>

lemma filter_search_Cons:
  assumes "filter_search rt q (r # rs) = Inr out"
  obtains keep rs' where "(if q = [] then Inr True else hay_includes rt q r) = Inr keep"
    and "filter_search rt q rs = Inr rs'" and "out = (if keep then r # rs' else rs')"
  using assms by (simp split: sum.splits)

lemma set_filter_search:
  "filter_search rt q rs = Inr out \<Longrightarrow>
     set out = {r \<in> set rs. q = [] \<or> hay_includes rt q r = Inr True}"
proof (induction rs arbitrary: out)
  case Nil
  then show ?case by simp
next
  case (Cons r rs)
  from Cons.prems obtain keep rs' where
    k: "(if q = [] then Inr True else hay_includes rt q r) = Inr keep"
    and f: "filter_search rt q rs = Inr rs'" and o: "out = (if keep then r # rs' else rs')"
    by (rule filter_search_Cons)
  have ih: "set rs' = {r \<in> set rs. q = [] \<or> hay_includes rt q r = Inr True}"
    by (rule Cons.IH[OF f])
  have kk: "keep \<longleftrightarrow> (q = [] \<or> hay_includes rt q r = Inr True)"
    using k by (cases "q = []") auto
  show ?case unfolding o using ih kk by auto
qed

text \<open>
  C5, as amended. Whenever \<^verbatim>\<open>renderWatchlist\<close> computes its rows without throwing, a row
  is among them iff it is a price row, its ticker is true in a condition, no sector filter is
  active or the filter is exactly the row's sector, and the search text, trimmed and
  upper-cased, is empty or occurs in the upper-cased text \<^verbatim>\<open>`${r.ticker} ${r.company}`\<close>:
  the ticker, one space and the company, joined.
\<close>

theorem watchlist_membership:
  assumes "watchlist_rows rt ps search_text filter_value = Inr rows"
  shows "r \<in> set rows \<longleftrightarrow>
           r \<in> set ps \<and> truthy (ticker r)
           \<and> (filter_value = [] \<or> sector r = JStr filter_value)
           \<and> (search_key rt search_text = []
                \<or> (\<exists>t c. ToString_opt rt (ticker r) = Inr t \<and> ToString rt (company r) = Inr c
                       \<and> includes_str (toUpperCase rt (t @ '' '' @ c)) (search_key rt search_text)))"
proof -
  obtain rs where rs: "filter_search rt (search_key rt search_text)
             (filter (\<lambda>r. filter_value = [] \<or> sector r = JStr filter_value)
                (filter (\<lambda>r. truthy (ticker r)) ps)) = Inr rs"
    and s: "sort_by_ticker rt rs = Inr rows"
    using assms by (auto simp: watchlist_rows_def split: sum.splits)
  have h: "hay_includes rt q r = Inr True \<longleftrightarrow>
        (\<exists>t c. ToString_opt rt (ticker r) = Inr t \<and> ToString rt (company r) = Inr c
               \<and> includes_str (toUpperCase rt (t @ '' '' @ c)) q)" for q
    by (auto simp: hay_includes_def split: sum.splits)
  show ?thesis
    unfolding set_sort_by_ticker[OF s] set_filter_search[OF rs] h[symmetric] by auto
qed

lemma key_ab: "search_key rt ''a b'' = ''A B''"
  by (simp add: search_key_def trim_eval toUpperCase_def ascii_def upper_char_def)

text \<open>
  C5 as stated fails for a search text that runs across the two fields: with the ticker
  \<^verbatim>\<open>AA\<close>, the company \<^verbatim>\<open>BB\<close> and the search text \<^verbatim>\<open>a b\<close>, the row is shown, though
  neither field contains the text.
\<close>

theorem watchlist_membership_counterexample:
  "\<forall>rt. watchlist_rows rt [named_row ''AA'' ''BB''] ''a b'' [] = Inr [named_row ''AA'' ''BB'']
     \<and> \<not> includes_str (toUpperCase rt ''AA'') (search_key rt ''a b'')
     \<and> \<not> includes_str (toUpperCase rt ''BB'') (search_key rt ''a b'')"
  by (simp add: watchlist_rows_def key_ab named_row_def truthy_def hay_includes_def ToString_opt_def
      sort_by_ticker_def toUpperCase_def ascii_def code_unit_def upper_char_def)

text \<open>The theorem at the same prices and search text: the joined text contains \<^verbatim>\<open>A B\<close>.\<close>

theorem watchlist_membership_witness:
  "\<forall>rt. watchlist_rows rt [named_row ''AA'' ''BB''] ''a b'' [] = Inr [named_row ''AA'' ''BB'']
     \<and> named_row ''AA'' ''BB'' \<in> set [named_row ''AA'' ''BB'']
     \<and> includes_str (toUpperCase rt (''AA'' @ '' '' @ ''BB'')) (search_key rt ''a b'')"
proof
  fix rt
  have w: "watchlist_rows rt [named_row ''AA'' ''BB''] ''a b'' [] = Inr [named_row ''AA'' ''BB'']"
    by (simp add: watchlist_rows_def key_ab named_row_def truthy_def hay_includes_def ToString_opt_def
      sort_by_ticker_def toUpperCase_def ascii_def code_unit_def upper_char_def)
  from watchlist_membership[OF w, of "named_row ''AA'' ''BB''"]
  show "watchlist_rows rt [named_row ''AA'' ''BB''] ''a b'' [] = Inr [named_row ''AA'' ''BB'']
     \<and> named_row ''AA'' ''BB'' \<in> set [named_row ''AA'' ''BB'']
     \<and> includes_str (toUpperCase rt (''AA'' @ '' '' @ ''BB'')) (search_key rt ''a b'')"
    using w by (simp add: key_ab named_row_def ToString_opt_def)
qed

subsection \<open>Rows with the same ticker\<close>

lemma cmp_dup: "ticker_cmp rt (named_row t c) (named_row t d) = - 1"
proof -
  have "\<not> str_less t t" by (induction t) auto
  then show ?thesis
    by (simp add: ticker_cmp_def js_gt_def ToPrimitive_def named_row_def prim_less_def)
qed

text \<open>
  C9 fails on the code where two rows have the same ticker. The comparator answers -1 for
  the pair in either order, so it orders neither before the other consistently, and the
  sort reverses the pair each time it runs: sorting the sorted sequence changes it.
\<close>

theorem ticker_sort_duplicates:
  "\<forall>rt. ticker_cmp rt (named_row ''A'' ''First'') (named_row ''A'' ''Second'') = - 1
     \<and> ticker_cmp rt (named_row ''A'' ''Second'') (named_row ''A'' ''First'') = - 1
     \<and> sort_by_ticker rt [named_row ''A'' ''First'', named_row ''A'' ''Second'']
           = Inr [named_row ''A'' ''Second'', named_row ''A'' ''First'']
     \<and> sort_by_ticker rt [named_row ''A'' ''Second'', named_row ''A'' ''First'']
           = Inr [named_row ''A'' ''First'', named_row ''A'' ''Second'']"
proof -
  have p: "\<not> isl (ToPrimitive rt (ticker (named_row t c)))" for rt t c
    by (simp add: ToPrimitive_def named_row_def)
  have s: "sort_by_ticker rt [named_row t c, named_row t d] = Inr [named_row t d, named_row t c]"
    for rt t c d
    by (simp add: sort_by_ticker_def p js_sort_def cmp_dup)
  show ?thesis by (simp add: cmp_dup s)
qed

subsection \<open>The markup of a row\<close>

text \<open>
  C4 fails on the code in the watchlist: the company name \<^verbatim>\<open><b>x</b>\<close> goes into the
  markup of its row as it is, where \<^verbatim>\<open>escapeHtml\<close>, which the news list applies, would
  have written \<^verbatim>\<open>&lt;b&gt;x&lt;/b&gt;\<close>.
\<close>

theorem watchlist_company_unescaped:
  "\<forall>rt. row_html rt (named_row ''A'' ''<b>x</b>'') =
       Inr (nl @ ''      <td>'' @ nl
            @ ''        <div class='' @ dq @ ''ticker'' @ dq @ ''>A</div>'' @ nl
            @ ''        <div class='' @ dq @ ''small muted'' @ dq @ ''><b>x</b></div>'' @ nl
            @ ''      </td>'' @ nl
            @ ''      <td class='' @ dq @ ''right'' @ dq @ ''>'' @ dash @ ''</td>'' @ nl
            @ ''      <td class='' @ dq @ ''right '' @ dq @ ''>'' @ dash @ ''</td>'' @ nl
            @ ''      <td class='' @ dq @ ''right '' @ dq @ ''>'' @ dash @ ''</td>'' @ nl
            @ ''      <td class='' @ dq @ ''right'' @ dq @ ''>'' @ dash @ ''</td>'' @ nl
            @ ''    '')
     \<and> escapeHtml ''<b>x</b>'' = ''&lt;b&gt;x&lt;/b&gt;''"
  by (simp add: row_html_def named_row_def ToString_opt_def first_truthy_def truthy_def chgClass_def
      escapeHtml_def replaceAll_def)

text \<open>What \<^verbatim>\<open>escapeHtml\<close> returns holds none of \<^verbatim>\<open><\<close>, \<^verbatim>\<open>>\<close> and the two quotes.\<close>

lemma set_replaceAll: "set (replaceAll c t s) \<subseteq> (set s - {c}) \<union> set t"
  by (auto simp: replaceAll_def)

lemma escapeHtml_clean:
  "CHR ''<'' \<notin> set (escapeHtml s) \<and> CHR ''>'' \<notin> set (escapeHtml s)
   \<and> CHR 0x22 \<notin> set (escapeHtml s) \<and> CHR 0x27 \<notin> set (escapeHtml s)"
proof -
  let ?a = "replaceAll CHR ''&'' ''&amp;'' s"
  let ?b = "replaceAll CHR ''<'' ''&lt;'' ?a"
  let ?c = "replaceAll CHR ''>'' ''&gt;'' ?b"
  let ?d = "replaceAll (CHR 0x22) ''&quot;'' ?c"
  let ?e = "replaceAll (CHR 0x27) ''&#039;'' ?d"
  have b: "CHR ''<'' \<notin> set ?b" using set_replaceAll[of "CHR ''<''" "''&lt;''" ?a] by auto
  have c: "CHR ''<'' \<notin> set ?c" "CHR ''>'' \<notin> set ?c"
    using b set_replaceAll[of "CHR ''>''" "''&gt;''" ?b] by auto
  have d: "CHR ''<'' \<notin> set ?d" "CHR ''>'' \<notin> set ?d" "CHR 0x22 \<notin> set ?d"
    using c set_replaceAll[of "CHR 0x22" "''&quot;''" ?c] by auto
  have e: "CHR ''<'' \<notin> set ?e" "CHR ''>'' \<notin> set ?e" "CHR 0x22 \<notin> set ?e" "CHR 0x27 \<notin> set ?e"
    using d set_replaceAll[of "CHR 0x27" "''&#039;''" ?d] by auto
  show ?thesis using e by (simp add: escapeHtml_def)
qed

section \<open>Properties of \<^verbatim>\<open>refresh\<close>\<close>

subsection \<open>Strict equality of tickers\<close>

lemma strict_eq_self: "strict_eq a b \<Longrightarrow> strict_eq a a"
  by (auto simp: strict_eq_def split: option.splits json.splits)

lemma strict_eq_trans: "strict_eq a b \<Longrightarrow> strict_eq b c \<Longrightarrow> strict_eq a c"
  by (auto simp: strict_eq_def split: option.splits json.splits)

lemma strict_eq_truthy: "truthy a \<Longrightarrow> \<not> is_object a \<Longrightarrow> strict_eq a a"
  by (auto simp: strict_eq_def is_object_def truthy_def split: option.splits json.splits)

lemma same_ticker_False [simp]: "same_ticker False a b = strict_eq a b"
  by (auto simp: same_ticker_def strict_eq_def is_object_def split: option.splits json.splits)

lemma same_ticker_self: "truthy a \<Longrightarrow> same_ticker True a a"
  by (simp add: same_ticker_def strict_eq_truthy)

lemma same_ticker_strict: "strict_eq a b \<Longrightarrow> same_ticker one a a"
  by (auto simp: same_ticker_def strict_eq_def is_object_def split: option.splits json.splits)

lemma find_enumerate_snd:
  "map_option snd (find (\<lambda>(i, x). Q x) (enumerate n xs)) = find Q xs"
  by (induction xs arbitrary: n) auto

lemma find_enumerate_ge:
  "find P (enumerate n xs) = Some (i, y) \<Longrightarrow> n \<le> i"
  by (induction xs arbitrary: n) (auto split: if_splits, fastforce)

lemma find_again:
  "find (\<lambda>(j, x). strict_eq (ticker x) t) (enumerate n xs) = Some (i, still)
   \<Longrightarrow> find (\<lambda>(j, x). same_ticker (Some i = Some j) (ticker x) (ticker still)) (enumerate n xs)
       = Some (i, still)"
proof (induction xs arbitrary: n)
  case Nil
  then show ?case by simp
next
  case (Cons x xs)
  show ?case
  proof (cases "strict_eq (ticker x) t")
    case True
    then have "i = n" "still = x" using Cons.prems by simp_all
    then show ?thesis using same_ticker_strict[OF True] by simp
  next
    case False
    then have tl: "find (\<lambda>(j, x). strict_eq (ticker x) t) (enumerate (Suc n) xs) = Some (i, still)"
      using Cons.prems by simp
    then have "Suc n \<le> i" by (rule find_enumerate_ge)
    moreover have "strict_eq (ticker still) t"
      using tl by (auto simp: find_Some_iff)
    then have "\<not> strict_eq (ticker x) (ticker still)"
      using False by (auto simp: strict_eq_def split: option.splits json.splits)
    ultimately have "\<not> same_ticker (Some i = Some n) (ticker x) (ticker still)" by simp
    then show ?thesis using Cons.IH[OF tl] by simp
  qed
qed

subsection \<open>What the selection leaves of the state\<close>

lemma selectTicker_state:
  "fst (selectTicker rt st arg) =
     (case find (\<lambda>(i, x). same_ticker (fst arg = Some i) (ticker x) (snd arg))
             (enumerate 0 (prices st)) of
        None \<Rightarrow> st
      | Some (i, r) \<Rightarrow> st \<lparr> selected := Some r, selected_at := Some i \<rparr>)"
  by (simp add: selectTicker_def split: option.splits prod.splits)

lemma selectTicker_frame [simp]:
  "prices (fst (selectTicker rt st t)) = prices st"
  "news (fst (selectTicker rt st t)) = news st"
  "leaderboard (fst (selectTicker rt st t)) = leaderboard st"
  "sectors (fst (selectTicker rt st t)) = sectors st"
  by (simp_all add: selectTicker_state split: option.splits prod.splits)

lemma auto_select_frame [simp]:
  "prices (fst (auto_select rt st)) = prices st"
  "news (fst (auto_select rt st)) = news st"
  "leaderboard (fst (auto_select rt st)) = leaderboard st"
  "sectors (fst (auto_select rt st)) = sectors st"
  by (simp_all add: auto_select_def)

lemma keep_selection_frame [simp]:
  "prices (fst (keep_selection rt st)) = prices st"
  "news (fst (keep_selection rt st)) = news st"
  "leaderboard (fst (keep_selection rt st)) = leaderboard st"
  "sectors (fst (keep_selection rt st)) = sectors st"
  by (simp_all add: keep_selection_def split: option.splits prod.splits)

lemma reselect_state:
  "fst (reselect rt st) =
     (if isl (snd (auto_select rt st)) then fst (auto_select rt st)
      else fst (keep_selection rt (fst (auto_select rt st))))"
  by (simp add: reselect_def split: sum.splits)

lemma reselect_frame [simp]:
  "prices (fst (reselect rt st)) = prices st"
  "news (fst (reselect rt st)) = news st"
  "leaderboard (fst (reselect rt st)) = leaderboard st"
  "sectors (fst (reselect rt st)) = sectors st"
  by (simp_all add: reselect_state)

lemma assemble_fields [simp]:
  "prices (assemble st (p, n, l)) = p" "news (assemble st (p, n, l)) = n"
  "leaderboard (assemble st (p, n, l)) = l"
  "sectors (assemble st (p, n, l)) = new_Set (filter (\<lambda>s. truthy (Some s)) (map sector p))"
  "selected (assemble st (p, n, l)) = selected st"
  "selected_at (assemble st (p, n, l)) = None"
  by (simp_all add: assemble_def)

text \<open>The selection that the end of \<^verbatim>\<open>refresh\<close> leaves, from the selection before and the new rows.\<close>

lemma select_first:
  assumes "prices st = r # rs" "truthy (ticker r)"
  shows "fst (selectTicker rt st (Some 0, ticker r)) = st \<lparr> selected := Some r, selected_at := Some 0 \<rparr>"
  using assms by (simp add: selectTicker_state same_ticker_self)

lemma keep_first:
  assumes "truthy (ticker r)" "prices st = r # rs" "selected st = Some r" "selected_at st = Some 0"
  shows "fst (keep_selection rt st) = st"
proof -
  have "fst (selectTicker rt st (Some 0, ticker r)) = st \<lparr> selected := Some r, selected_at := Some 0 \<rparr>"
    using select_first[OF assms(2,1)] .
  also have "\<dots> = st" using assms(3,4) by simp
  finally show ?thesis using assms by (simp add: keep_selection_def same_ticker_self)
qed

lemma keep_old:
  assumes "selected st = Some s" "selected_at st = None"
  shows "selected (fst (keep_selection rt st)) =
     (case find (\<lambda>x. strict_eq (ticker x) (ticker s)) (prices st) of
        None \<Rightarrow> Some s | Some x \<Rightarrow> Some x)"
proof (cases "find (\<lambda>(i, x). strict_eq (ticker x) (ticker s)) (enumerate 0 (prices st))")
  case None
  then have "find (\<lambda>x. strict_eq (ticker x) (ticker s)) (prices st) = None"
    using find_enumerate_snd[of "\<lambda>x. strict_eq (ticker x) (ticker s)" 0 "prices st"] by simp
  then show ?thesis using None assms by (simp add: keep_selection_def)
next
  case (Some p)
  obtain i still where p: "p = (i, still)" by (cases p)
  have f: "find (\<lambda>x. strict_eq (ticker x) (ticker s)) (prices st) = Some still"
    using find_enumerate_snd[of "\<lambda>x. strict_eq (ticker x) (ticker s)" 0 "prices st"] Some p by simp
  have "fst (selectTicker rt st (Some i, ticker still)) = st \<lparr> selected := Some still, selected_at := Some i \<rparr>"
    using find_again[OF Some[unfolded p]] by (simp add: selectTicker_state)
  then show ?thesis using Some p f assms by (simp add: keep_selection_def)
qed

lemma reselect_selected:
  assumes "list_all (\<lambda>r. truthy (ticker r)) (prices st)" "selected_at st = None"
  shows "selected (fst (reselect rt st)) =
     (case selected st of
        None \<Rightarrow> (case prices st of [] \<Rightarrow> None | r # _ \<Rightarrow> Some r)
      | Some s \<Rightarrow>
          (case find (\<lambda>x. strict_eq (ticker x) (ticker s)) (prices st) of
             None \<Rightarrow> Some s | Some x \<Rightarrow> Some x))"
proof (cases "selected st")
  case (Some s)
  then have "auto_select rt st = (st, Inr None)" by (simp add: auto_select_def)
  then show ?thesis using keep_old[OF Some assms(2)] Some by (simp add: reselect_state)
next
  case None
  show ?thesis
  proof (cases "prices st")
    case Nil
    then show ?thesis using None by (simp add: reselect_state auto_select_def keep_selection_def)
  next
    case (Cons r rs)
    then have t: "truthy (ticker r)" using assms(1) by simp
    define st1 where "st1 = st \<lparr> selected := Some r, selected_at := Some 0 \<rparr>"
    have a: "fst (auto_select rt st) = st1"
      using select_first[OF Cons t] None Cons by (simp add: auto_select_def st1_def)
    have "fst (keep_selection rt st1) = st1"
      by (rule keep_first[OF t, of _ rs]) (simp_all add: st1_def Cons)
    then have "fst (reselect rt st) = st1" using a by (simp add: reselect_state)
    then show ?thesis using None Cons by (simp add: st1_def)
  qed
qed

lemma normalize_all_truthy:
  "normalize_all rt pRaw nRaw lRaw = Inr (pArr, nArr, lArr) \<Longrightarrow> list_all (\<lambda>r. truthy (ticker r)) pArr"
  by (auto simp: normalize_all_def list_all_iff split: sum.splits)

lemma refresh_state:
  "fst (refresh rt u st pRaw nRaw lRaw) =
     (case normalize_all rt pRaw nRaw lRaw of
        Inl e \<Rightarrow> st
      | Inr cols \<Rightarrow>
          if isl (render_all rt u (assemble st cols)) then assemble st cols
          else fst (reselect rt (assemble st cols)))"
  by (simp add: refresh_def split: sum.splits)

subsection \<open>The example payloads\<close>

lemma normalize_named:
  "normalizePriceRow rt (JObj [(''ticker'', JStr t), (''company_name'', JStr c)]) = Inr (named_row t c)"
  by (simp add: row_eval named_row_def)

lemma normalize_unprintable:
  "\<exists>row. normalizePriceRow rt (JObj [(''ticker'', JStr ''A''), (''company_name'', JObj [(''toString'', JNum (Fin 1))])]) = Inr row
     \<and> ticker row = Some (JStr ''A'') \<and> company row = JObj [(''toString'', JNum (Fin 1))] \<and> sector row = JStr []"
  by (simp add: row_eval)

lemma asArray_empty: "asArray empty_payload = []"
  by (simp add: asArray_def empty_payload_def prop_of_def isArray_def array_items_def)

lemma normalize_null: "normalize_all rt null_prices empty_payload empty_payload = Inl TypeError"
  by (simp add: normalize_all_def null_prices_def asArray_def isArray_def array_items_def normalizePriceRow_def)

lemma asArray_JArr: "asArray (JArr xs) = xs"
  by (simp add: asArray_def isArray_def array_items_def)

lemma truthy_named [simp]: "truthy (ticker (named_row t c)) = (t \<noteq> [])"
  by (simp add: named_row_def truthy_def)

lemma normalize_two:
  "normalize_all rt two_prices empty_payload empty_payload
     = Inr ([named_row ''B'' ''Bee'', named_row ''A'' ''Ay''], [], [])"
  by (simp add: normalize_all_def two_prices_def asArray_empty asArray_JArr normalize_named sort_news_def)

lemma normalize_unprintable_all:
  "\<exists>row. normalize_all rt unprintable_prices empty_payload empty_payload = Inr ([row], [], [])
     \<and> ticker row = Some (JStr ''A'') \<and> company row = JObj [(''toString'', JNum (Fin 1))] \<and> sector row = JStr []"
proof -
  obtain row where row: "normalizePriceRow rt (JObj [(''ticker'', JStr ''A''), (''company_name'', JObj [(''toString'', JNum (Fin 1))])]) = Inr row"
     "ticker row = Some (JStr ''A'')" "company row = JObj [(''toString'', JNum (Fin 1))]" "sector row = JStr []"
    using normalize_unprintable[of rt] by blast
  have "normalize_all rt unprintable_prices empty_payload empty_payload = Inr ([row], [], [])"
    by (simp add: normalize_all_def unprintable_prices_def asArray_empty asArray_JArr row sort_news_def truthy_def)
  then show ?thesis using row by blast
qed

lemma render_unprintable:
  assumes "ticker row = Some (JStr ''A'')" "company row = JObj [(''toString'', JNum (Fin 1))]" "sector row = JStr []"
  shows "render_all rt no_inputs (assemble st ([row], [], [])) = Inl TypeError"
  using assms
  by (simp add: render_all_def assemble_def fillSectorFilter_def new_Set_def truthy_def no_inputs_def
      js_sort_def renderWatchlist_def watchlist_rows_def search_key_def toUpperCase_def ascii_def
      sort_by_ticker_def row_html_def ToString_opt_def first_truthy_def has_key_def)

lemma render_two:
  "\<exists>pg. render_all rt no_inputs (assemble st ([named_row ''B'' ''Bee'', named_row ''A'' ''Ay''], [], [])) = Inr pg"
  "\<exists>pg. render_all rt no_inputs (assemble st ([named_row ''Z'' ''Zed''], [], [])) = Inr pg"
  by (simp add: render_all_def assemble_def fillSectorFilter_def new_Set_def truthy_def no_inputs_def
      js_sort_def renderWatchlist_def watchlist_rows_def search_key_def toUpperCase_def ascii_def
      sort_by_ticker_def row_html_def ToString_opt_def first_truthy_def has_key_def named_row_def
      ToPrimitive_def renderNews_def renderLeaderboard_def subtitle_of_def prop_of_def Let_def
      split: sum.splits)+

lemma normalize_z:
  "normalize_all rt z_prices empty_payload empty_payload = Inr ([named_row ''Z'' ''Zed''], [], [])"
  by (simp add: normalize_all_def z_prices_def asArray_empty asArray_JArr normalize_named sort_news_def)

lemma sectors_named [simp]:
  "sector (named_row t c) = JStr []" "\<not> truthy (Some (JStr []))" "new_Set [] = []"
  by (simp_all add: new_Set_def named_row_def truthy_def)

text \<open>The first refresh of the page, with the one row \<^verbatim>\<open>Z\<close>, selects it.\<close>

lemma first_refresh:
  "fst (refresh rt no_inputs initial_state z_prices empty_payload empty_payload) = stale_state"
proof -
  obtain pg where pg: "render_all rt no_inputs (assemble initial_state ([named_row ''Z'' ''Zed''], [], [])) = Inr pg"
    using render_two(2) by blast
  define st1 where "st1 = assemble initial_state ([named_row ''Z'' ''Zed''], [], [])"
  have st1: "st1 = \<lparr> prices = [named_row ''Z'' ''Zed''], news = [], leaderboard = [], sectors = [],
                      selected = None, selected_at = None \<rparr>"
    by (simp add: st1_def assemble_def initial_state_def)
  have a: "fst (auto_select rt st1) = stale_state"
    using select_first[of st1 "named_row ''Z'' ''Zed''" "[]" rt]
    by (simp add: auto_select_def st1 stale_state_def)
  have "fst (keep_selection rt stale_state) = stale_state"
    by (rule keep_first[of "named_row ''Z'' ''Zed''" _ "[]"]) (simp_all add: stale_state_def)
  then have "fst (reselect rt st1) = stale_state"
    using a by (simp add: reselect_state)
  then show ?thesis using pg by (simp add: refresh_state normalize_z st1_def)
qed

text \<open>A refresh that brings other rows finds the selection in none of them.\<close>

lemma reselect_stale:
  "reselect rt (assemble stale_state ([named_row ''B'' ''Bee'', named_row ''A'' ''Ay''], [], []))
     = (assemble stale_state ([named_row ''B'' ''Bee'', named_row ''A'' ''Ay''], [], []), Inr None)"
  by (simp add: reselect_def auto_select_def keep_selection_def assemble_def stale_state_def
      named_row_def strict_eq_def)

subsection \<open>The collections are replaced together\<close>

text \<open>
  C10, as amended. When an exception ends \<^verbatim>\<open>refresh\<close> during the normalisation of the three
  payloads (the sort of the news included), the state is exactly the state before the call.
  When the normalisation returns the three collections, the prices, the news, the leaderboard
  and the sectors of the state afterwards are these collections and the sectors of the new
  prices, all four together, whether or not a renderer or the selection throws after the
  assignments.
\<close>

theorem refresh_atomic_normalization:
  "(normalize_all rt pRaw nRaw lRaw = Inl e \<longrightarrow> refresh rt u st pRaw nRaw lRaw = (st, Inl e))
   \<and> (normalize_all rt pRaw nRaw lRaw = Inr (pArr, nArr, lArr) \<longrightarrow>
        prices (fst (refresh rt u st pRaw nRaw lRaw)) = pArr
        \<and> news (fst (refresh rt u st pRaw nRaw lRaw)) = nArr
        \<and> leaderboard (fst (refresh rt u st pRaw nRaw lRaw)) = lArr
        \<and> sectors (fst (refresh rt u st pRaw nRaw lRaw))
            = new_Set (filter (\<lambda>s. truthy (Some s)) (map sector pArr)))"
  by (simp add: refresh_state) (simp add: refresh_def)

text \<open>
  The theorem at the state that has the row \<^verbatim>\<open>Z\<close> selected: the payload \<^verbatim>\<open>[null]\<close> throws in
  the normalisation and leaves the state, the payload of the rows \<^verbatim>\<open>B\<close> and \<^verbatim>\<open>A\<close> replaces
  the collections.
\<close>

theorem refresh_atomic_normalization_witness:
  "\<forall>rt. normalize_all rt null_prices empty_payload empty_payload = Inl TypeError
     \<and> refresh rt no_inputs stale_state null_prices empty_payload empty_payload
         = (stale_state, Inl TypeError)
     \<and> normalize_all rt two_prices empty_payload empty_payload
         = Inr ([named_row ''B'' ''Bee'', named_row ''A'' ''Ay''], [], [])
     \<and> prices (fst (refresh rt no_inputs stale_state two_prices empty_payload empty_payload))
         = [named_row ''B'' ''Bee'', named_row ''A'' ''Ay'']
     \<and> news (fst (refresh rt no_inputs stale_state two_prices empty_payload empty_payload)) = []
     \<and> leaderboard (fst (refresh rt no_inputs stale_state two_prices empty_payload empty_payload)) = []
     \<and> sectors (fst (refresh rt no_inputs stale_state two_prices empty_payload empty_payload)) = []"
  using refresh_atomic_normalization[of _ null_prices empty_payload empty_payload TypeError
          no_inputs stale_state]
    refresh_atomic_normalization[of _ two_prices empty_payload empty_payload _ no_inputs stale_state
          "[named_row ''B'' ''Bee'', named_row ''A'' ''Ay'']" "[]" "[]"]
  by (simp add: normalize_null normalize_two)

text \<open>
  C10 as stated fails for an exception after the assignments. With the row \<^verbatim>\<open>Z\<close> in the
  state and the payload \<^verbatim>\<open>[{"ticker":"A","company_name":{"toString":1}}]\<close>, the watchlist
  throws a \<^verbatim>\<open>TypeError\<close> when it prints the company, and the prices of the state are the new
  row \<^verbatim>\<open>A\<close> already.
\<close>

theorem refresh_atomic_normalization_counterexample:
  "\<forall>rt. snd (refresh rt no_inputs stale_state unprintable_prices empty_payload empty_payload)
         = Inl TypeError
     \<and> map ticker (prices (fst (refresh rt no_inputs stale_state unprintable_prices
                                   empty_payload empty_payload))) = [Some (JStr ''A'')]
     \<and> map ticker (prices stale_state) = [Some (JStr ''Z'')]"
proof
  fix rt
  obtain row where n: "normalize_all rt unprintable_prices empty_payload empty_payload = Inr ([row], [], [])"
    and row: "ticker row = Some (JStr ''A'')" "company row = JObj [(''toString'', JNum (Fin 1))]"
      "sector row = JStr []"
    using normalize_unprintable_all[of rt] by blast
  have "refresh rt no_inputs stale_state unprintable_prices empty_payload empty_payload
          = (assemble stale_state ([row], [], []), Inl TypeError)"
    by (simp add: refresh_def n render_unprintable[OF row])
  then show "snd (refresh rt no_inputs stale_state unprintable_prices empty_payload empty_payload)
         = Inl TypeError
     \<and> map ticker (prices (fst (refresh rt no_inputs stale_state unprintable_prices
                                   empty_payload empty_payload))) = [Some (JStr ''A'')]
     \<and> map ticker (prices stale_state) = [Some (JStr ''Z'')]"
    by (simp add: row stale_state_def named_row_def)
qed

subsection \<open>The selection after a refresh\<close>

text \<open>
  C1, as amended. After a refresh whose normalisation and renderers do not throw, the
  selection is: when nothing was selected, the first row of the new prices in the order of
  the snapshot, and nothing when there is no row; when a row was selected, the first new row
  whose ticker is strictly equal to the ticker of that row, and the row selected before,
  unchanged, when no new row has its ticker.
\<close>

theorem refresh_selection:
  assumes "normalize_all rt pRaw nRaw lRaw = Inr (pArr, nArr, lArr)"
    and "render_all rt u (assemble st (pArr, nArr, lArr)) = Inr pg"
  shows "selected (fst (refresh rt u st pRaw nRaw lRaw)) =
     (case selected st of
        None \<Rightarrow> (case pArr of [] \<Rightarrow> None | r # _ \<Rightarrow> Some r)
      | Some s \<Rightarrow>
          (case find (\<lambda>x. strict_eq (ticker x) (ticker s)) pArr of
             None \<Rightarrow> Some s | Some x \<Rightarrow> Some x))"
  using reselect_selected[of "assemble st (pArr, nArr, lArr)" rt, unfolded assemble_fields]
    normalize_all_truthy[OF assms(1)] assms
  by (simp add: refresh_state)

text \<open>
  The theorem at the first refresh of the page with the rows \<^verbatim>\<open>B\<close> and \<^verbatim>\<open>A\<close>: the selection
  is \<^verbatim>\<open>B\<close>, the first row of the snapshot.
\<close>

theorem refresh_selection_witness:
  "\<forall>rt. normalize_all rt two_prices empty_payload empty_payload
         = Inr ([named_row ''B'' ''Bee'', named_row ''A'' ''Ay''], [], [])
     \<and> (\<exists>pg. render_all rt no_inputs
                (assemble initial_state ([named_row ''B'' ''Bee'', named_row ''A'' ''Ay''], [], []))
              = Inr pg)
     \<and> selected (fst (refresh rt no_inputs initial_state two_prices empty_payload empty_payload))
         = Some (named_row ''B'' ''Bee'')"
proof
  fix rt
  obtain pg where pg: "render_all rt no_inputs
       (assemble initial_state ([named_row ''B'' ''Bee'', named_row ''A'' ''Ay''], [], [])) = Inr pg"
    using render_two(1) by blast
  have "selected (fst (refresh rt no_inputs initial_state two_prices empty_payload empty_payload))
          = Some (named_row ''B'' ''Bee'')"
    using refresh_selection[OF normalize_two pg] by (simp add: initial_state_def)
  then show "normalize_all rt two_prices empty_payload empty_payload
         = Inr ([named_row ''B'' ''Bee'', named_row ''A'' ''Ay''], [], [])
     \<and> (\<exists>pg. render_all rt no_inputs
                (assemble initial_state ([named_row ''B'' ''Bee'', named_row ''A'' ''Ay''], [], []))
              = Inr pg)
     \<and> selected (fst (refresh rt no_inputs initial_state two_prices empty_payload empty_payload))
         = Some (named_row ''B'' ''Bee'')"
    using pg normalize_two by blast
qed

text \<open>
  C1 as stated fails when the selected ticker is gone. The first refresh brings the row
  \<^verbatim>\<open>Z\<close> and selects it; the second brings the rows \<^verbatim>\<open>B\<close> and \<^verbatim>\<open>A\<close> and ends without an
  exception, and the selection is still the row \<^verbatim>\<open>Z\<close>, which is not among the prices.
\<close>

theorem refresh_selection_counterexample:
  "\<forall>rt. fst (refresh rt no_inputs initial_state z_prices empty_payload empty_payload) = stale_state
     \<and> (\<exists>out. snd (refresh rt no_inputs stale_state two_prices empty_payload empty_payload) = Inr out)
     \<and> map ticker (prices (fst (refresh rt no_inputs stale_state two_prices empty_payload
                                   empty_payload))) = [Some (JStr ''B''), Some (JStr ''A'')]
     \<and> map_option ticker (selected (fst (refresh rt no_inputs stale_state two_prices empty_payload
                                            empty_payload))) = Some (Some (JStr ''Z''))"
proof
  fix rt
  obtain pg where pg: "render_all rt no_inputs
       (assemble stale_state ([named_row ''B'' ''Bee'', named_row ''A'' ''Ay''], [], [])) = Inr pg"
    using render_two(1) by blast
  have "refresh rt no_inputs stale_state two_prices empty_payload empty_payload
          = (assemble stale_state ([named_row ''B'' ''Bee'', named_row ''A'' ''Ay''], [], []),
             Inr (pg, None))"
    by (simp add: refresh_def normalize_two pg reselect_stale)
  then show "fst (refresh rt no_inputs initial_state z_prices empty_payload empty_payload) = stale_state
     \<and> (\<exists>out. snd (refresh rt no_inputs stale_state two_prices empty_payload empty_payload) = Inr out)
     \<and> map ticker (prices (fst (refresh rt no_inputs stale_state two_prices empty_payload
                                   empty_payload))) = [Some (JStr ''B''), Some (JStr ''A'')]
     \<and> map_option ticker (selected (fst (refresh rt no_inputs stale_state two_prices empty_payload
                                            empty_payload))) = Some (Some (JStr ''Z''))"
    by (simp add: first_refresh stale_state_def named_row_def)
qed

end
